theory Spec2Isabelle
  imports Complex_Main
begin

section \<open>Exceptions, driver outcomes and local variables\<close>

text \<open>
  The exporter is a Python module (src/enviroplus_exporter.py). Every exception class
  the module names or can raise itself is a constructor of \<open>exn\<close>. The source lists
  \<open>IOError\<close> and \<open>OSError\<close> separately in its handlers, and so does the model.
  \<open>OtherError\<close> stands for any exception class that none of the handlers names.
\<close>

datatype exn =
    IOError | RuntimeError | OSError | ValueError
  | PmsReadTimeoutError | PmsChecksumError | PmsSerialTimeoutError
  | ZeroDivisionError | TypeError | NameError | UnboundLocalError | OtherError

text \<open>
  The outcome of evaluating an expression that may raise: \<open>Inl e\<close> when it raises
  \<open>e\<close>, \<open>Inr v\<close> when it yields \<open>v\<close>. A driver call of the source
  (\<open>bme280.get_pressure()\<close>, \<open>gas.read_all()\<close>, ...) is an input of this type.
\<close>

type_synonym 'a outcome = "exn + 'a"

definition bind_exn :: "'a outcome \<Rightarrow> ('a \<Rightarrow> 'b outcome) \<Rightarrow> 'b outcome" where
  "bind_exn r f = (case r of Inl e \<Rightarrow> Inl e | Inr v \<Rightarrow> f v)"

text \<open>
  The handler tuples of the source: \<open>except (IOError, RuntimeError, OSError, ValueError)\<close>
  in every channel but the particulates, whose tuple adds the three pms5003 classes.
\<close>

definition sensor_errors :: "exn list" where
  "sensor_errors = [IOError, RuntimeError, OSError, ValueError]"

definition pms_errors :: "exn list" where
  "pms_errors = [IOError, PmsReadTimeoutError, PmsChecksumError, PmsSerialTimeoutError,
                 RuntimeError, OSError, ValueError]"

text \<open>
  Reading a local variable of a Python function: a name that no executed statement
  has bound raises \<open>UnboundLocalError\<close>.
\<close>

definition read_local :: "'a option \<Rightarrow> 'a outcome" where
  "read_local v = (case v of None \<Rightarrow> Inl UnboundLocalError | Some x \<Rightarrow> Inr x)"

text \<open>
  The right-hand side of a Python assignment with three targets
  (\<open>a, b, c = rhs\<close>): a value that is not iterable raises \<open>TypeError\<close>, a sequence
  of another length raises \<open>ValueError\<close>, and nothing is assigned in either case.
\<close>

datatype 'a pyrhs = Scalar 'a | Sequence "'a list"

fun unpack3 :: "'a pyrhs \<Rightarrow> ('a \<times> 'a \<times> 'a) outcome" where
  "unpack3 (Scalar v) = Inl TypeError"
| "unpack3 (Sequence [a, b, c]) = Inr (a, b, c)"
| "unpack3 (Sequence xs) = Inl ValueError"

section \<open>Numbers\<close>

text \<open>
  Python floats are modelled by the reals: the formulas are the source's, evaluated
  exactly. \<open>round(x, 2)\<close> rounds to the nearest hundredth, a tie going to the even
  neighbour. True division raises \<open>ZeroDivisionError\<close> on a zero divisor and
  \<open>math.log10\<close> raises \<open>ValueError\<close> (math domain error) on an argument that is
  not positive.
\<close>

definition round_half_even :: "real \<Rightarrow> int" where
  "round_half_even y =
     (let f = \<lfloor>y\<rfloor>; d = y - of_int f
      in if d < 1 / 2 then f else if 1 / 2 < d then f + 1 else if even f then f else f + 1)"

definition py_round2 :: "real \<Rightarrow> real" where
  "py_round2 x = of_int (round_half_even (x * 100)) / 100"

definition py_truediv :: "real \<Rightarrow> real \<Rightarrow> real outcome" where
  "py_truediv x y = (if y = 0 then Inl ZeroDivisionError else Inr (x / y))"

definition py_log10 :: "real \<Rightarrow> real outcome" where
  "py_log10 x = (if x \<le> 0 then Inl ValueError else Inr (log 10 x))"

section \<open>Module state\<close>

text \<open>Lines 44 to 46.\<close>

definition MAXCOUNT :: int where "MAXCOUNT = 2"
definition MINCOUNT :: int where "MINCOUNT = 0"
definition DEFAULT_READING :: int where "DEFAULT_READING = 0"

text \<open>The prometheus objects of lines 110 to 132, by their Python names.\<close>

datatype gauge =
    TEMPERATURE | PRESSURE | HUMIDITY | OXIDISING | REDUCING | NH3 | CO2 | O2
  | LUX | PROXIMITY | PM1 | PM25 | PM10

datatype histogram =
    OXIDISING_HIST | REDUCING_HIST | NH3_HIST | CO2_HIST | O2_HIST
  | PM1_HIST | PM25_HIST | PM10_HIST

text \<open>
  The module's global variables (lines 35 to 55) and the metric registry. A gauge holds
  its last value; a histogram is the list of the values it has observed, oldest first.
  \<open>i2c_resets\<close> counts the calls of \<open>reset_i2c\<close>. \<open>countLog\<close> is a history
  variable that the program never reads: every value stored into one of the eight
  counters by a handler or by a per-cycle function, in the order of the assignments.
\<close>

record state =
  o2Active :: bool
  co2Active :: bool
  tempActive :: bool
  pressActive :: bool
  humActive :: bool
  gasActive :: bool
  partActive :: bool
  lightActive :: bool
  o2Count :: int
  co2Count :: int
  tempCount :: int
  pressCount :: int
  humCount :: int
  gasCount :: int
  partCount :: int
  lightCount :: int
  gauges :: "gauge \<Rightarrow> real"
  hists :: "histogram \<Rightarrow> real list"
  i2c_resets :: nat
  countLog :: "int list"

definition initial_state :: state where
  "initial_state =
     \<lparr> o2Active = True, co2Active = True, tempActive = True, pressActive = True,
       humActive = True, gasActive = True, partActive = True, lightActive = True,
       o2Count = MINCOUNT, co2Count = MINCOUNT, tempCount = MINCOUNT,
       pressCount = MINCOUNT, humCount = MINCOUNT, gasCount = MINCOUNT,
       partCount = MINCOUNT, lightCount = MINCOUNT,
       gauges = (\<lambda>g. 0), hists = (\<lambda>h. []), i2c_resets = 0, countLog = [] \<rparr>"

definition set_gauge :: "gauge \<Rightarrow> real \<Rightarrow> state \<Rightarrow> state" where
  "set_gauge g v s = s\<lparr>gauges := (gauges s)(g := v)\<rparr>"

definition observe :: "histogram \<Rightarrow> real \<Rightarrow> state \<Rightarrow> state" where
  "observe h v s = s\<lparr>hists := (hists s)(h := hists s h @ [v])\<rparr>"

text \<open>Lines 136 to 138: the bus rescan and the pause, of which the model keeps the count.\<close>

definition reset_i2c :: "state \<Rightarrow> state" where
  "reset_i2c s = s\<lparr>i2c_resets := i2c_resets s + 1\<rparr>"

text \<open>An assignment to a counter, recorded in the history.\<close>

definition set_o2Count :: "int \<Rightarrow> state \<Rightarrow> state" where
  "set_o2Count v s = s\<lparr>o2Count := v, countLog := countLog s @ [v]\<rparr>"

definition set_co2Count :: "int \<Rightarrow> state \<Rightarrow> state" where
  "set_co2Count v s = s\<lparr>co2Count := v, countLog := countLog s @ [v]\<rparr>"

definition set_tempCount :: "int \<Rightarrow> state \<Rightarrow> state" where
  "set_tempCount v s = s\<lparr>tempCount := v, countLog := countLog s @ [v]\<rparr>"

definition set_pressCount :: "int \<Rightarrow> state \<Rightarrow> state" where
  "set_pressCount v s = s\<lparr>pressCount := v, countLog := countLog s @ [v]\<rparr>"

definition set_humCount :: "int \<Rightarrow> state \<Rightarrow> state" where
  "set_humCount v s = s\<lparr>humCount := v, countLog := countLog s @ [v]\<rparr>"

definition set_gasCount :: "int \<Rightarrow> state \<Rightarrow> state" where
  "set_gasCount v s = s\<lparr>gasCount := v, countLog := countLog s @ [v]\<rparr>"

definition set_partCount :: "int \<Rightarrow> state \<Rightarrow> state" where
  "set_partCount v s = s\<lparr>partCount := v, countLog := countLog s @ [v]\<rparr>"

definition set_lightCount :: "int \<Rightarrow> state \<Rightarrow> state" where
  "set_lightCount v s = s\<lparr>lightCount := v, countLog := countLog s @ [v]\<rparr>"

section \<open>Start-up\<close>

text \<open>
  Which of the four device set-ups raises. The handlers are bare \<open>except:\<close> clauses,
  so the class of the exception does not matter.
\<close>

record boot =
  ioe_fails :: bool
  bme280_fails :: bool
  pms5003_fails :: bool
  scd4x_fails :: bool

text \<open>Lines 58 to 67: the IO expander of the O2 sensor.\<close>

definition init_ioe :: "boot \<Rightarrow> state \<Rightarrow> state" where
  "init_ioe b s =
     (if ioe_fails b then set_o2Count MAXCOUNT (s\<lparr>o2Active := False\<rparr>) else s)"

text \<open>
  Lines 86 to 91: the handler assigns the single value \<open>False\<close> to three targets,
  then the single value \<open>MAXCOUNT\<close> to three targets.
\<close>

definition init_bme280 :: "boot \<Rightarrow> state \<Rightarrow> state outcome" where
  "init_bme280 b s =
     (if bme280_fails b then
        bind_exn (unpack3 (Scalar False)) (\<lambda>(t, p, h).
          let s1 = s\<lparr>tempActive := t, pressActive := p, humActive := h\<rparr>
          in bind_exn (unpack3 (Scalar MAXCOUNT)) (\<lambda>(tc, pc, hc).
               Inr (set_humCount hc (set_pressCount pc (set_tempCount tc s1)))))
      else Inr s)"

text \<open>Lines 93 to 98.\<close>

definition init_pms5003 :: "boot \<Rightarrow> state \<Rightarrow> state" where
  "init_pms5003 b s =
     (if pms5003_fails b then set_partCount MAXCOUNT (s\<lparr>partActive := False\<rparr>) else s)"

text \<open>Lines 520 to 526, in the main block: the handler assigns \<open>co2Active\<close> only.\<close>

definition init_scd4x :: "boot \<Rightarrow> state \<Rightarrow> state" where
  "init_scd4x b s = (if scd4x_fails b then s\<lparr>co2Active := False\<rparr> else s)"

text \<open>
  The statements that run before the first poll cycle, in the order of the file. An
  exception that leaves a handler ends the process.
\<close>

definition startup :: "boot \<Rightarrow> state outcome" where
  "startup b =
     bind_exn (init_bme280 b (init_ioe b initial_state)) (\<lambda>s.
       Inr (init_scd4x b (init_pms5003 b s)))"

section \<open>Unit conversion of the gas readings\<close>

text \<open>
  Lines 100 to 108: the base readings and tuning factors that \<open>calc_ppm\<close> reads as
  globals. They are a parameter of the model, and \<open>unit1_cal\<close> holds the values of
  the source.
\<close>

record gas_cal =
  base_ox :: real
  base_red :: real
  base_nh3 :: real
  ox_factor :: real
  red_factor :: real
  nh3_factor :: real

definition unit1_cal :: gas_cal where
  "unit1_cal =
     \<lparr> base_ox = 108706, base_red = 396941, base_nh3 = 365918,
       ox_factor = 1 / 100, red_factor = 2, nh3_factor = 17 / 10 \<rparr>"

text \<open>A \<open>try\<close> block whose only handler is \<open>except ZeroDivisionError: x = 0.0\<close>.\<close>

definition except_ZeroDivisionError :: "real outcome \<Rightarrow> real outcome" where
  "except_ZeroDivisionError r =
     (case r of Inl e \<Rightarrow> (if e = ZeroDivisionError then Inr 0 else Inl e) | Inr v \<Rightarrow> Inr v)"

text \<open>Lines 246 to 269.\<close>

definition calc_ppm :: "gas_cal \<Rightarrow> real \<Rightarrow> real \<Rightarrow> real \<Rightarrow> (real \<times> real \<times> real) outcome" where
  "calc_ppm cal ox red nh3 =
     bind_exn (except_ZeroDivisionError
       (bind_exn (py_truediv ox (base_ox cal)) (\<lambda>q.
          Inr (py_round2 (q * ox_factor cal))))) (\<lambda>oxidising.
     bind_exn (except_ZeroDivisionError
       (bind_exn (py_truediv red (base_red cal)) (\<lambda>q.
        bind_exn (py_log10 q) (\<lambda>l.
          Inr (py_round2 (10 powr l * red_factor cal)))))) (\<lambda>reducing.
     bind_exn (except_ZeroDivisionError
       (bind_exn (py_truediv nh3 (base_nh3 cal)) (\<lambda>q.
        bind_exn (py_log10 q) (\<lambda>l.
          Inr (py_round2 (10 powr l * nh3_factor cal)))))) (\<lambda>ammonia.
     Inr (oxidising, reducing, ammonia))))"

section \<open>The per-cycle update of each channel\<close>

text \<open>
  Each function takes the outcome of its driver call and the module state, and gives
  back how the call ends (\<open>Inr ()\<close> for a normal return, \<open>Inl e\<close> when \<open>e\<close>
  leaves the function) together with the state at that moment: assignments to globals
  made before a raise stay made.
\<close>

text \<open>
  Lines 168 to 176 of \<open>get_temperature\<close>: the value to report. The list
  \<open>cpu_temps\<close> is a local of the call, built from a first CPU sample and shifted by
  a second one; \<open>cpu\<close> is the pair of the two samples that \<open>get_cpu_temperature\<close>
  returns in this call. \<open>factor\<close> is \<open>args.factor\<close>: \<open>None\<close> or a float, true
  in \<open>if factor\<close> when it is a nonzero float. \<open>raw_temp\<close> is the local variable,
  \<open>None\<close> when the \<open>try\<close> block did not bind it.
\<close>

definition compensated :: "real \<Rightarrow> real \<times> real \<Rightarrow> real \<Rightarrow> real" where
  "compensated factor cpu raw_temp =
     (let cpu_temps = replicate 5 (fst cpu);
          cpu_temp = snd cpu;
          cpu_temps = tl cpu_temps @ [cpu_temp];
          avg_cpu_temp = sum_list cpu_temps / real (length cpu_temps)
      in raw_temp - ((avg_cpu_temp - raw_temp) / factor))"

definition temperature_value :: "real option \<Rightarrow> real \<times> real \<Rightarrow> real option \<Rightarrow> real outcome" where
  "temperature_value factor cpu raw_temp =
     (case factor of
        None \<Rightarrow> read_local raw_temp
      | Some f \<Rightarrow>
          if f \<noteq> 0 then bind_exn (read_local raw_temp) (\<lambda>r. Inr (compensated f cpu r))
          else read_local raw_temp)"

text \<open>
  Lines 149 to 188. The statements after the \<open>try\<close> statement (lines 168 to 178) run
  on both of its exits, the handler's included.
\<close>

definition get_temperature ::
    "real option \<Rightarrow> real outcome \<Rightarrow> real \<times> real \<Rightarrow> state \<Rightarrow> unit outcome \<times> state" where
  "get_temperature factor rd cpu s =
     (if tempActive s then
        (case (case rd of
                 Inr v \<Rightarrow> Inr (Some v, s)
               | Inl e \<Rightarrow>
                   if e \<in> set sensor_errors then
                     let s1 = reset_i2c s;
                         s2 = set_gauge TEMPERATURE 0 s1;
                         s3 = set_tempCount (tempCount s2 + 1) s2;
                         s4 = (if tempCount s3 \<ge> MAXCOUNT
                               then (set_tempCount MAXCOUNT s3)\<lparr>tempActive := False\<rparr>
                               else s3)
                     in Inr (None, s4)
                   else Inl e) of
           Inl e \<Rightarrow> (Inl e, s)
         | Inr (raw_temp, s') \<Rightarrow>
             (case temperature_value factor cpu raw_temp of
                Inl e \<Rightarrow> (Inl e, s')
              | Inr temperature \<Rightarrow> (Inr (), set_gauge TEMPERATURE temperature s')))
      else
        let s1 = set_gauge TEMPERATURE 0 s;
            s2 = set_tempCount (tempCount s1 + 1) s1;
            s3 = (if tempCount s2 > MINCOUNT then set_tempCount (tempCount s2 - 1) s2
                  else (set_tempCount MINCOUNT s2)\<lparr>tempActive := True\<rparr>)
        in (Inr (), s3))"

text \<open>Lines 190 to 215.\<close>

definition get_pressure :: "real outcome \<Rightarrow> state \<Rightarrow> unit outcome \<times> state" where
  "get_pressure rd s =
     (if pressActive s then
        (case rd of
           Inr pressure \<Rightarrow> (Inr (), set_gauge PRESSURE pressure s)
         | Inl e \<Rightarrow>
             if e \<in> set sensor_errors then
               let s1 = reset_i2c s;
                   s2 = set_gauge PRESSURE 0 s1;
                   s3 = set_pressCount (pressCount s2 + 1) s2;
                   s4 = (if pressCount s3 \<ge> MAXCOUNT
                         then (set_pressCount MAXCOUNT s3)\<lparr>pressActive := False\<rparr>
                         else s3)
               in (Inr (), s4)
             else (Inl e, s))
      else
        let s1 = set_gauge PRESSURE 0 s;
            s2 = (if pressCount s1 > MINCOUNT then set_pressCount (pressCount s1 - 1) s1
                  else (set_pressCount MINCOUNT s1)\<lparr>pressActive := True\<rparr>)
        in (Inr (), s2))"

text \<open>Lines 218 to 244.\<close>

definition get_humidity :: "real outcome \<Rightarrow> state \<Rightarrow> unit outcome \<times> state" where
  "get_humidity rd s =
     (if humActive s then
        (case rd of
           Inr humidity \<Rightarrow> (Inr (), set_gauge HUMIDITY humidity s)
         | Inl e \<Rightarrow>
             if e \<in> set sensor_errors then
               let s1 = reset_i2c s;
                   s2 = set_gauge HUMIDITY 0 s1;
                   s3 = set_humCount (humCount s2 + 1) s2;
                   s4 = (if humCount s3 \<ge> MAXCOUNT
                         then (set_humCount MAXCOUNT s3)\<lparr>humActive := False\<rparr>
                         else s3)
               in (Inr (), s4)
             else (Inl e, s))
      else
        let s1 = set_gauge HUMIDITY 0 s;
            s2 = (if humCount s1 > MINCOUNT then set_humCount (humCount s1 - 1) s1
                  else (set_humCount MINCOUNT s1)\<lparr>humActive := True\<rparr>)
        in (Inr (), s2))"

text \<open>The three gas gauges and histograms set to one triple (lines 291 to 298, 306 to 313, 315 to 322).\<close>

definition emit_gas :: "real \<times> real \<times> real \<Rightarrow> state \<Rightarrow> state" where
  "emit_gas ppm s =
     (case ppm of (p0, p1, p2) \<Rightarrow>
        observe NH3_HIST p2 (set_gauge NH3 p2
          (observe REDUCING_HIST p1 (set_gauge REDUCING p1
            (observe OXIDISING_HIST p0 (set_gauge OXIDISING p0 s))))))"

text \<open>
  Lines 271 to 329. The call of \<open>calc_ppm\<close> stands inside the \<open>try\<close> block, after
  the driver calls \<open>gas.enable_adc()\<close> and \<open>gas.read_all()\<close>, whose joint outcome
  is \<open>rd\<close>: the oxidising, reducing and ammonia readings, or the exception raised.
\<close>

definition get_gas ::
    "gas_cal \<Rightarrow> (real \<times> real \<times> real) outcome \<Rightarrow> state \<Rightarrow> unit outcome \<times> state" where
  "get_gas cal rd s =
     (if gasActive s then
        (case bind_exn rd (\<lambda>(ox, red, nh3). calc_ppm cal ox red nh3) of
           Inr ppm \<Rightarrow> (Inr (), emit_gas ppm s)
         | Inl e \<Rightarrow>
             if e \<in> set sensor_errors then
               let s1 = reset_i2c s;
                   s2 = emit_gas (0, 0, 0) s1;
                   s3 = set_gasCount (gasCount s2 + 1) s2;
                   s4 = (if gasCount s3 \<ge> MAXCOUNT
                         then (set_gasCount MAXCOUNT s3)\<lparr>gasActive := False\<rparr>
                         else s3)
               in (Inr (), s4)
             else (Inl e, s))
      else
        let s1 = emit_gas (0, 0, 0) s;
            s2 = (if gasCount s1 > MINCOUNT then set_gasCount (gasCount s1 - 1) s1
                  else (set_gasCount MINCOUNT s1)\<lparr>gasActive := True\<rparr>)
        in (Inr (), s2))"

text \<open>Lines 332 to 363. \<open>rd\<close> is the outcome of \<open>ioe.input(o2_pin)\<close>.\<close>

definition get_o2 :: "real outcome \<Rightarrow> state \<Rightarrow> unit outcome \<times> state" where
  "get_o2 rd s =
     (if o2Active s then
        (case bind_exn rd (\<lambda>adc. Inr (py_round2 adc)) of
           Inr adc \<Rightarrow>
             (Inr (), observe O2_HIST (((adc * (212 / 1000)) / 2) * 100)
                        (set_gauge O2 (((adc * (212 / 1000)) / 2) * 100) s))
         | Inl e \<Rightarrow>
             if e \<in> set sensor_errors then
               let s1 = reset_i2c s;
                   s2 = set_o2Count (o2Count s1 + 1) s1;
                   s3 = observe O2_HIST 0 (set_gauge O2 0 s2);
                   s4 = (if o2Count s3 \<ge> MAXCOUNT
                         then (set_o2Count MAXCOUNT s3)\<lparr>o2Active := False\<rparr>
                         else s3)
               in (Inr (), s4)
             else (Inl e, s))
      else
        let s1 = observe O2_HIST 0 (set_gauge O2 0 s);
            s2 = (if o2Count s1 > MINCOUNT then set_o2Count (o2Count s1 - 1) s1
                  else (set_o2Count MINCOUNT s1)\<lparr>o2Active := True\<rparr>)
        in (Inr (), s2))"

text \<open>
  Lines 366 to 396. \<open>rd\<close> is the outcome of \<open>device.measure()\<close>: the CO2 value,
  the temperature, the relative humidity and the timestamp.
\<close>

definition get_co2 ::
    "(real \<times> real \<times> real \<times> real) outcome \<Rightarrow> state \<Rightarrow> unit outcome \<times> state" where
  "get_co2 rd s =
     (if co2Active s then
        (case rd of
           Inr (co2, temperature, relative_humidity, timestamp) \<Rightarrow>
             (Inr (), observe CO2_HIST co2 (set_gauge CO2 co2 s))
         | Inl e \<Rightarrow>
             if e \<in> set sensor_errors then
               let s1 = reset_i2c s;
                   s2 = set_co2Count (co2Count s1 + 1) s1;
                   s3 = observe CO2_HIST 0 (set_gauge CO2 0 s2);
                   s4 = (if co2Count s3 \<ge> MAXCOUNT
                         then (set_co2Count MAXCOUNT s3)\<lparr>co2Active := False\<rparr>
                         else s3)
               in (Inr (), s4)
             else (Inl e, s))
      else
        let s1 = observe CO2_HIST 0 (set_gauge CO2 0 s);
            s2 = (if co2Count s1 > MINCOUNT then set_co2Count (co2Count s1 - 1) s1
                  else (set_co2Count MINCOUNT s1)\<lparr>co2Active := True\<rparr>)
        in (Inr (), s2))"

text \<open>
  Lines 399 to 431. The \<open>try\<close> block reads the lux value, then the proximity, and
  only then sets the two gauges; \<open>prox_rd\<close> is looked at only when the lux read
  returned.
\<close>

definition get_light :: "real outcome \<Rightarrow> real outcome \<Rightarrow> state \<Rightarrow> unit outcome \<times> state" where
  "get_light lux_rd prox_rd s =
     (if lightActive s then
        (case bind_exn lux_rd (\<lambda>lux. bind_exn prox_rd (\<lambda>prox. Inr (lux, prox))) of
           Inr (lux, prox) \<Rightarrow> (Inr (), set_gauge PROXIMITY prox (set_gauge LUX lux s))
         | Inl e \<Rightarrow>
             if e \<in> set sensor_errors then
               let s1 = reset_i2c s;
                   s2 = set_gauge PROXIMITY 0 (set_gauge LUX 0 s1);
                   s3 = set_lightCount (lightCount s2 + 1) s2;
                   s4 = (if lightCount s3 \<ge> MAXCOUNT
                         then (set_lightCount MAXCOUNT s3)\<lparr>lightActive := False\<rparr>
                         else s3)
               in (Inr (), s4)
             else (Inl e, s))
      else
        let s1 = set_gauge PROXIMITY 0 (set_gauge LUX 0 s);
            s2 = (if lightCount s1 > MINCOUNT then set_lightCount (lightCount s1 - 1) s1
                  else (set_lightCount MINCOUNT s1)\<lparr>lightActive := True\<rparr>)
        in (Inr (), s2))"

text \<open>
  The three particulate gauges set and the three histograms observed (lines 443 to 448,
  456 to 462, 464 to 470): gauges first, then histograms.
\<close>

definition emit_particulates :: "real \<times> real \<times> real \<Rightarrow> real \<times> real \<times> real \<Rightarrow> state \<Rightarrow> state" where
  "emit_particulates g h s =
     (case g of (g1, g25, g10) \<Rightarrow> case h of (h1, h25, h10) \<Rightarrow>
        observe PM10_HIST h10 (observe PM25_HIST h25 (observe PM1_HIST h1
          (set_gauge PM10 g10 (set_gauge PM25 g25 (set_gauge PM1 g1 s))))))"

text \<open>
  Lines 434 to 477. \<open>rd\<close> is the outcome of \<open>pms5003.read()\<close>, as the triple of
  \<open>pm_ug_per_m3(1.0)\<close>, \<open>pm_ug_per_m3(2.5)\<close> and \<open>pm_ug_per_m3(10)\<close>. The
  handler does not reset the bus.
\<close>

definition get_particulates ::
    "(real \<times> real \<times> real) outcome \<Rightarrow> state \<Rightarrow> unit outcome \<times> state" where
  "get_particulates rd s =
     (if partActive s then
        (case rd of
           Inr (pm1, pm25, pm10) \<Rightarrow>
             (Inr (), emit_particulates (pm1, pm25, pm10) (pm1, pm25 - pm1, pm10 - pm25) s)
         | Inl e \<Rightarrow>
             if e \<in> set pms_errors then
               let s1 = emit_particulates (0, 0, 0) (0, 0, 0) s;
                   s2 = set_partCount (partCount s1 + 1) s1;
                   s3 = (if partCount s2 \<ge> MAXCOUNT
                         then (set_partCount MAXCOUNT s2)\<lparr>partActive := False\<rparr>
                         else s2)
               in (Inr (), s3)
             else (Inl e, s))
      else
        let s1 = emit_particulates (0, 0, 0) (0, 0, 0) s;
            s2 = (if partCount s1 > MINCOUNT then set_partCount (partCount s1 - 1) s1
                  else (set_partCount MINCOUNT s1)\<lparr>partActive := True\<rparr>)
        in (Inr (), s2))"

section \<open>One pass of the poll loop\<close>

text \<open>The driver outcomes of one pass, one per call of lines 537 to 545.\<close>

record readings =
  temp_rd :: "real outcome"
  cpu_rd :: "real \<times> real"
  press_rd :: "real outcome"
  hum_rd :: "real outcome"
  lux_rd :: "real outcome"
  prox_rd :: "real outcome"
  gas_rd :: "(real \<times> real \<times> real) outcome"
  o2_rd :: "real outcome"
  part_rd :: "(real \<times> real \<times> real) outcome"
  co2_rd :: "(real \<times> real \<times> real \<times> real) outcome"

text \<open>
  Sequencing of two statements: the second runs only when the first returned. The loop
  of lines 536 to 547 has no handler, so an exception that leaves a per-cycle function
  leaves the loop.
\<close>

definition and_then ::
    "unit outcome \<times> state \<Rightarrow> (state \<Rightarrow> unit outcome \<times> state) \<Rightarrow> unit outcome \<times> state" where
  "and_then r f = (case r of (Inl e, s) \<Rightarrow> (Inl e, s) | (Inr u, s) \<Rightarrow> f s)"

text \<open>The body of the loop; \<open>enviro\<close> is the truth value of \<open>args.enviro\<close>.\<close>

definition poll_cycle ::
    "real option \<Rightarrow> bool \<Rightarrow> gas_cal \<Rightarrow> readings \<Rightarrow> state \<Rightarrow> unit outcome \<times> state" where
  "poll_cycle factor enviro cal r s =
     and_then (get_temperature factor (temp_rd r) (cpu_rd r) s) (\<lambda>s.
     and_then (get_pressure (press_rd r) s) (\<lambda>s.
     and_then (get_humidity (hum_rd r) s) (\<lambda>s.
     and_then (get_light (lux_rd r) (prox_rd r) s) (\<lambda>s.
       if \<not> enviro then
         and_then (get_gas cal (gas_rd r) s) (\<lambda>s.
         and_then (get_o2 (o2_rd r) s) (\<lambda>s.
         and_then (get_particulates (part_rd r) s) (\<lambda>s.
           get_co2 (co2_rd r) s)))
       else (Inr (), s)))))"

section \<open>Reference definitions used by the statements\<close>

text \<open>
  The health states that the state machine of a channel visits when it starts from a
  state the start-up code produces: active with a streak of 0 or 1, or inactive with a
  counter between \<open>MINCOUNT\<close> and \<open>MAXCOUNT\<close>.
\<close>

definition health_ok :: "bool \<Rightarrow> int \<Rightarrow> bool" where
  "health_ok active count =
     (if active then count = 0 \<or> count = 1 else count = 0 \<or> count = 1 \<or> count = 2)"

text \<open>
  The CPU average as the specification words it, for comparison with lines 169 to 173:
  one CPU sample per cycle, a window of five samples kept from cycle to cycle, seeded
  with five copies of the first sample, the oldest sample leaving when a new one
  arrives. \<open>cs\<close> lists the samples of the cycles so far, oldest first.
\<close>

fun spec_cpu_window :: "real list \<Rightarrow> real list" where
  "spec_cpu_window [] = []"
| "spec_cpu_window (c # cs) = fold (\<lambda>x w. tl w @ [x]) cs (replicate 5 c)"

definition spec_temperature :: "real \<Rightarrow> real list \<Rightarrow> real \<Rightarrow> real" where
  "spec_temperature factor cs raw_temp =
     raw_temp - ((sum_list (spec_cpu_window cs) / 5 - raw_temp) / factor)"

text \<open>
  Readings of one pass in which the temperature read raises \<open>ValueError\<close> and every
  other driver call returns.
\<close>

definition temperature_fault :: readings where
  "temperature_fault =
     \<lparr> temp_rd = Inl ValueError, cpu_rd = (50, 50), press_rd = Inr 1013, hum_rd = Inr 40,
       lux_rd = Inr 120, prox_rd = Inr 3, gas_rd = Inr (108706, 396941, 365918),
       o2_rd = Inr 2, part_rd = Inr (10, 15, 20), co2_rd = Inr (420, 21, 40, 0) \<rparr>"

text \<open>
  The eight channels, and the health state (active flag, counter) of each in a module
  state.
\<close>

datatype channel = TempCh | PressCh | HumCh | LightCh | GasCh | O2Ch | PartCh | Co2Ch

fun health_of :: "channel \<Rightarrow> state \<Rightarrow> bool \<times> int" where
  "health_of TempCh s = (tempActive s, tempCount s)"
| "health_of PressCh s = (pressActive s, pressCount s)"
| "health_of HumCh s = (humActive s, humCount s)"
| "health_of LightCh s = (lightActive s, lightCount s)"
| "health_of GasCh s = (gasActive s, gasCount s)"
| "health_of O2Ch s = (o2Active s, o2Count s)"
| "health_of PartCh s = (partActive s, partCount s)"
| "health_of Co2Ch s = (co2Active s, co2Count s)"

text \<open>
  The health states a channel is in between two passes of the poll loop: the
  temperature channel is active with its counter at \<open>MINCOUNT\<close>, every other channel
  is in one of the states of \<open>health_ok\<close>.
\<close>

definition visited :: "channel \<Rightarrow> bool \<times> int \<Rightarrow> bool" where
  "visited c h =
     (case h of (active, count) \<Rightarrow>
        if c = TempCh then active \<and> count = MINCOUNT else health_ok active count)"

text \<open>
  \<open>cycle_inv\<close> holds between two passes; \<open>range_ok\<close>, which says that every counter
  and every value ever stored into a counter lies between \<open>MINCOUNT\<close> and
  \<open>MAXCOUNT\<close>, holds also where a pass is cut short by an exception. A step is safe
  when, from a state of \<open>cycle_inv\<close>, it ends in a state of \<open>range_ok\<close>, and in a
  state of \<open>cycle_inv\<close> when it returns.
\<close>

definition cycle_inv :: "state \<Rightarrow> bool" where
  "cycle_inv s =
     ((\<forall>c. visited c (health_of c s)) \<and> set (countLog s) \<subseteq> {MINCOUNT..MAXCOUNT})"

definition range_ok :: "state \<Rightarrow> bool" where
  "range_ok s =
     ((\<forall>c. snd (health_of c s) \<in> {MINCOUNT..MAXCOUNT}) \<and>
      set (countLog s) \<subseteq> {MINCOUNT..MAXCOUNT})"

definition safe_step :: "(state \<Rightarrow> unit outcome \<times> state) \<Rightarrow> bool" where
  "safe_step f =
     (\<forall>s. cycle_inv s \<longrightarrow>
        range_ok (snd (f s)) \<and> (fst (f s) = Inr () \<longrightarrow> cycle_inv (snd (f s))))"

text \<open>
  The states of the running program between two passes of the loop of lines 536 to
  547: the state that a completed start-up leaves, and the state that a pass leaves
  when it returns. A pass that ends with an exception ends the process. The factor,
  the sensor set and the calibration are left free from pass to pass, which only adds
  states.
\<close>

inductive reachable :: "state \<Rightarrow> bool" where
  start: "startup b = Inr s \<Longrightarrow> reachable s"
| pass: "reachable s \<Longrightarrow> poll_cycle factor enviro cal r s = (Inr (), s') \<Longrightarrow> reachable s'"

text \<open>
  Readings of one pass in which the temperature read returns and every other driver
  call raises \<open>IOError\<close>.
\<close>

definition sensors_fault :: readings where
  "sensors_fault =
     \<lparr> temp_rd = Inr 20, cpu_rd = (50, 50), press_rd = Inl IOError, hum_rd = Inl IOError,
       lux_rd = Inl IOError, prox_rd = Inl IOError, gas_rd = Inl IOError,
       o2_rd = Inl IOError, part_rd = Inl IOError, co2_rd = Inl IOError \<rparr>"

text \<open>All devices present at start-up.\<close>

definition all_present :: boot where
  "all_present =
     \<lparr> ioe_fails = False, bme280_fails = False, pms5003_fails = False,
       scd4x_fails = False \<rparr>"

section \<open>Unfolding sets\<close>

lemmas count_defs = MAXCOUNT_def MINCOUNT_def

lemmas store_defs = set_gauge_def observe_def reset_i2c_def emit_gas_def
  emit_particulates_def set_o2Count_def set_co2Count_def set_tempCount_def
  set_pressCount_def set_humCount_def set_gasCount_def set_partCount_def
  set_lightCount_def

lemmas exn_defs = bind_exn_def sensor_errors_def pms_errors_def read_local_def

lemmas num_defs = py_round2_def round_half_even_def py_truediv_def py_log10_def
  except_ZeroDivisionError_def

section \<open>The failure and cooldown paths of the seven channels other than temperature\<close>

text \<open>
  A read that raises an exception of the handler's tuple: the function returns, the
  gauges of the channel are 0, and the health state moves as follows. Active: the
  streak grows by one, is clamped to \<open>MAXCOUNT\<close>, and the channel is deactivated when
  it reaches \<open>MAXCOUNT\<close>. Inactive (no read is made): the counter falls by one while it
  is above \<open>MINCOUNT\<close>, and the channel is reactivated in the cycle that finds it at
  \<open>MINCOUNT\<close>.
\<close>

lemma get_pressure_failing_read:
  "e \<in> set sensor_errors \<Longrightarrow>
   fst (get_pressure (Inl e) s) = Inr () \<and>
   gauges (snd (get_pressure (Inl e) s)) PRESSURE = 0 \<and>
   pressActive (snd (get_pressure (Inl e) s)) =
     (if pressActive s then pressCount s + 1 < MAXCOUNT else pressCount s \<le> MINCOUNT) \<and>
   pressCount (snd (get_pressure (Inl e) s)) =
     (if pressActive s then min (pressCount s + 1) MAXCOUNT else max (pressCount s - 1) MINCOUNT)"
  by (simp add: get_pressure_def exn_defs store_defs count_defs Let_def)

lemma get_humidity_failing_read:
  "e \<in> set sensor_errors \<Longrightarrow>
   fst (get_humidity (Inl e) s) = Inr () \<and>
   gauges (snd (get_humidity (Inl e) s)) HUMIDITY = 0 \<and>
   humActive (snd (get_humidity (Inl e) s)) =
     (if humActive s then humCount s + 1 < MAXCOUNT else humCount s \<le> MINCOUNT) \<and>
   humCount (snd (get_humidity (Inl e) s)) =
     (if humActive s then min (humCount s + 1) MAXCOUNT else max (humCount s - 1) MINCOUNT)"
  by (simp add: get_humidity_def exn_defs store_defs count_defs Let_def)

lemma get_light_failing_read:
  "e \<in> set sensor_errors \<Longrightarrow>
   fst (get_light (Inl e) prd s) = Inr () \<and>
   gauges (snd (get_light (Inl e) prd s)) LUX = 0 \<and>
   gauges (snd (get_light (Inl e) prd s)) PROXIMITY = 0 \<and>
   lightActive (snd (get_light (Inl e) prd s)) =
     (if lightActive s then lightCount s + 1 < MAXCOUNT else lightCount s \<le> MINCOUNT) \<and>
   lightCount (snd (get_light (Inl e) prd s)) =
     (if lightActive s then min (lightCount s + 1) MAXCOUNT else max (lightCount s - 1) MINCOUNT)"
  by (simp add: get_light_def exn_defs store_defs count_defs Let_def)

lemma get_gas_failing_read:
  "e \<in> set sensor_errors \<Longrightarrow>
   fst (get_gas cal (Inl e) s) = Inr () \<and>
   gauges (snd (get_gas cal (Inl e) s)) OXIDISING = 0 \<and>
   gauges (snd (get_gas cal (Inl e) s)) REDUCING = 0 \<and>
   gauges (snd (get_gas cal (Inl e) s)) NH3 = 0 \<and>
   gasActive (snd (get_gas cal (Inl e) s)) =
     (if gasActive s then gasCount s + 1 < MAXCOUNT else gasCount s \<le> MINCOUNT) \<and>
   gasCount (snd (get_gas cal (Inl e) s)) =
     (if gasActive s then min (gasCount s + 1) MAXCOUNT else max (gasCount s - 1) MINCOUNT)"
  by (simp add: get_gas_def exn_defs store_defs count_defs Let_def)

lemma get_o2_failing_read:
  "e \<in> set sensor_errors \<Longrightarrow>
   fst (get_o2 (Inl e) s) = Inr () \<and>
   gauges (snd (get_o2 (Inl e) s)) O2 = 0 \<and>
   o2Active (snd (get_o2 (Inl e) s)) =
     (if o2Active s then o2Count s + 1 < MAXCOUNT else o2Count s \<le> MINCOUNT) \<and>
   o2Count (snd (get_o2 (Inl e) s)) =
     (if o2Active s then min (o2Count s + 1) MAXCOUNT else max (o2Count s - 1) MINCOUNT)"
  by (simp add: get_o2_def exn_defs store_defs count_defs Let_def)

lemma get_particulates_failing_read:
  "e \<in> set pms_errors \<Longrightarrow>
   fst (get_particulates (Inl e) s) = Inr () \<and>
   gauges (snd (get_particulates (Inl e) s)) PM1 = 0 \<and>
   gauges (snd (get_particulates (Inl e) s)) PM25 = 0 \<and>
   gauges (snd (get_particulates (Inl e) s)) PM10 = 0 \<and>
   partActive (snd (get_particulates (Inl e) s)) =
     (if partActive s then partCount s + 1 < MAXCOUNT else partCount s \<le> MINCOUNT) \<and>
   partCount (snd (get_particulates (Inl e) s)) =
     (if partActive s then min (partCount s + 1) MAXCOUNT else max (partCount s - 1) MINCOUNT)"
  by (simp add: get_particulates_def exn_defs store_defs count_defs Let_def)

lemma get_co2_failing_read:
  "e \<in> set sensor_errors \<Longrightarrow>
   fst (get_co2 (Inl e) s) = Inr () \<and>
   gauges (snd (get_co2 (Inl e) s)) CO2 = 0 \<and>
   co2Active (snd (get_co2 (Inl e) s)) =
     (if co2Active s then co2Count s + 1 < MAXCOUNT else co2Count s \<le> MINCOUNT) \<and>
   co2Count (snd (get_co2 (Inl e) s)) =
     (if co2Active s then min (co2Count s + 1) MAXCOUNT else max (co2Count s - 1) MINCOUNT)"
  by (simp add: get_co2_def exn_defs store_defs count_defs Let_def)

text \<open>
  Five cycles of failing reads from an active channel with a streak of 0: the states
  after each cycle, with the gauges of the channel.
\<close>

lemma get_pressure_duty_cycle:
  "pressActive s \<Longrightarrow> pressCount s = 0 \<Longrightarrow> e \<in> set sensor_errors \<Longrightarrow>
   map (\<lambda>n. let s' = ((\<lambda>s. snd (get_pressure (Inl e) s)) ^^ n) s
            in (pressActive s', pressCount s', [gauges s' PRESSURE])) [1, 2, 3, 4, 5]
   = [(True, 1, [0]), (False, 2, [0]), (False, 1, [0]), (False, 0, [0]),
      (True, 0, [0])]"
  by (simp add: eval_nat_numeral get_pressure_failing_read count_defs Let_def)

lemma get_humidity_duty_cycle:
  "humActive s \<Longrightarrow> humCount s = 0 \<Longrightarrow> e \<in> set sensor_errors \<Longrightarrow>
   map (\<lambda>n. let s' = ((\<lambda>s. snd (get_humidity (Inl e) s)) ^^ n) s
            in (humActive s', humCount s', [gauges s' HUMIDITY])) [1, 2, 3, 4, 5]
   = [(True, 1, [0]), (False, 2, [0]), (False, 1, [0]), (False, 0, [0]),
      (True, 0, [0])]"
  by (simp add: eval_nat_numeral get_humidity_failing_read count_defs Let_def)

lemma get_light_duty_cycle:
  "lightActive s \<Longrightarrow> lightCount s = 0 \<Longrightarrow> e \<in> set sensor_errors \<Longrightarrow>
   map (\<lambda>n. let s' = ((\<lambda>s. snd (get_light (Inl e) prd s)) ^^ n) s
            in (lightActive s', lightCount s', [gauges s' LUX, gauges s' PROXIMITY])) [1, 2, 3, 4, 5]
   = [(True, 1, [0, 0]), (False, 2, [0, 0]), (False, 1, [0, 0]), (False, 0, [0, 0]),
      (True, 0, [0, 0])]"
  by (simp add: eval_nat_numeral get_light_failing_read count_defs Let_def)

lemma get_gas_duty_cycle:
  "gasActive s \<Longrightarrow> gasCount s = 0 \<Longrightarrow> e \<in> set sensor_errors \<Longrightarrow>
   map (\<lambda>n. let s' = ((\<lambda>s. snd (get_gas cal (Inl e) s)) ^^ n) s
            in (gasActive s', gasCount s', [gauges s' OXIDISING, gauges s' REDUCING, gauges s' NH3])) [1, 2, 3, 4, 5]
   = [(True, 1, [0, 0, 0]), (False, 2, [0, 0, 0]), (False, 1, [0, 0, 0]), (False, 0, [0, 0, 0]),
      (True, 0, [0, 0, 0])]"
  by (simp add: eval_nat_numeral get_gas_failing_read count_defs Let_def)

lemma get_o2_duty_cycle:
  "o2Active s \<Longrightarrow> o2Count s = 0 \<Longrightarrow> e \<in> set sensor_errors \<Longrightarrow>
   map (\<lambda>n. let s' = ((\<lambda>s. snd (get_o2 (Inl e) s)) ^^ n) s
            in (o2Active s', o2Count s', [gauges s' O2])) [1, 2, 3, 4, 5]
   = [(True, 1, [0]), (False, 2, [0]), (False, 1, [0]), (False, 0, [0]),
      (True, 0, [0])]"
  by (simp add: eval_nat_numeral get_o2_failing_read count_defs Let_def)

lemma get_particulates_duty_cycle:
  "partActive s \<Longrightarrow> partCount s = 0 \<Longrightarrow> e \<in> set pms_errors \<Longrightarrow>
   map (\<lambda>n. let s' = ((\<lambda>s. snd (get_particulates (Inl e) s)) ^^ n) s
            in (partActive s', partCount s', [gauges s' PM1, gauges s' PM25, gauges s' PM10])) [1, 2, 3, 4, 5]
   = [(True, 1, [0, 0, 0]), (False, 2, [0, 0, 0]), (False, 1, [0, 0, 0]), (False, 0, [0, 0, 0]),
      (True, 0, [0, 0, 0])]"
  by (simp add: eval_nat_numeral get_particulates_failing_read count_defs Let_def)

lemma get_co2_duty_cycle:
  "co2Active s \<Longrightarrow> co2Count s = 0 \<Longrightarrow> e \<in> set sensor_errors \<Longrightarrow>
   map (\<lambda>n. let s' = ((\<lambda>s. snd (get_co2 (Inl e) s)) ^^ n) s
            in (co2Active s', co2Count s', [gauges s' CO2])) [1, 2, 3, 4, 5]
   = [(True, 1, [0]), (False, 2, [0]), (False, 1, [0]), (False, 0, [0]),
      (True, 0, [0])]"
  by (simp add: eval_nat_numeral get_co2_failing_read count_defs Let_def)

text \<open>
  From a visited health state, any cycle (read returning, read raising, or inactive)
  leads to a visited health state and stores only values between \<open>MINCOUNT\<close> and
  \<open>MAXCOUNT\<close> into the counter.
\<close>

lemma get_pressure_writes_bounded:
  "health_ok (pressActive s) (pressCount s) \<Longrightarrow>
   health_ok (pressActive (snd (get_pressure rd s))) (pressCount (snd (get_pressure rd s))) \<and>
   set (countLog (snd (get_pressure rd s))) \<subseteq> set (countLog s) \<union> {MINCOUNT..MAXCOUNT}"
  by (auto simp add: get_pressure_def health_ok_def exn_defs store_defs count_defs Let_def
        split: sum.splits prod.splits)

lemma get_humidity_writes_bounded:
  "health_ok (humActive s) (humCount s) \<Longrightarrow>
   health_ok (humActive (snd (get_humidity rd s))) (humCount (snd (get_humidity rd s))) \<and>
   set (countLog (snd (get_humidity rd s))) \<subseteq> set (countLog s) \<union> {MINCOUNT..MAXCOUNT}"
  by (auto simp add: get_humidity_def health_ok_def exn_defs store_defs count_defs Let_def
        split: sum.splits prod.splits)

lemma get_light_writes_bounded:
  "health_ok (lightActive s) (lightCount s) \<Longrightarrow>
   health_ok (lightActive (snd (get_light lrd prd s))) (lightCount (snd (get_light lrd prd s))) \<and>
   set (countLog (snd (get_light lrd prd s))) \<subseteq> set (countLog s) \<union> {MINCOUNT..MAXCOUNT}"
  by (auto simp add: get_light_def health_ok_def exn_defs store_defs count_defs Let_def
        split: sum.splits prod.splits)

lemma get_gas_writes_bounded:
  "health_ok (gasActive s) (gasCount s) \<Longrightarrow>
   health_ok (gasActive (snd (get_gas cal rd s))) (gasCount (snd (get_gas cal rd s))) \<and>
   set (countLog (snd (get_gas cal rd s))) \<subseteq> set (countLog s) \<union> {MINCOUNT..MAXCOUNT}"
  by (auto simp add: get_gas_def health_ok_def exn_defs store_defs count_defs Let_def
        split: sum.splits prod.splits)

lemma get_o2_writes_bounded:
  "health_ok (o2Active s) (o2Count s) \<Longrightarrow>
   health_ok (o2Active (snd (get_o2 rd s))) (o2Count (snd (get_o2 rd s))) \<and>
   set (countLog (snd (get_o2 rd s))) \<subseteq> set (countLog s) \<union> {MINCOUNT..MAXCOUNT}"
  by (auto simp add: get_o2_def health_ok_def exn_defs store_defs count_defs Let_def
        split: sum.splits prod.splits)

lemma get_particulates_writes_bounded:
  "health_ok (partActive s) (partCount s) \<Longrightarrow>
   health_ok (partActive (snd (get_particulates rd s))) (partCount (snd (get_particulates rd s))) \<and>
   set (countLog (snd (get_particulates rd s))) \<subseteq> set (countLog s) \<union> {MINCOUNT..MAXCOUNT}"
  by (auto simp add: get_particulates_def health_ok_def exn_defs store_defs count_defs Let_def
        split: sum.splits prod.splits)

lemma get_co2_writes_bounded:
  "health_ok (co2Active s) (co2Count s) \<Longrightarrow>
   health_ok (co2Active (snd (get_co2 rd s))) (co2Count (snd (get_co2 rd s))) \<and>
   set (countLog (snd (get_co2 rd s))) \<subseteq> set (countLog s) \<union> {MINCOUNT..MAXCOUNT}"
  by (auto simp add: get_co2_def health_ok_def exn_defs store_defs count_defs Let_def
        split: sum.splits prod.splits)

section \<open>The temperature channel\<close>

text \<open>
  An active temperature channel whose read raises an exception of the handler's tuple:
  the handler runs, and the statements after the \<open>try\<close> statement then read
  \<open>raw_temp\<close>, which nothing has bound. Whatever the factor, the call ends with
  \<open>UnboundLocalError\<close>.
\<close>

lemma temperature_handler_raises:
  "tempActive s \<Longrightarrow> e \<in> set sensor_errors \<Longrightarrow>
   fst (get_temperature factor (Inl e) cpu s) = Inl UnboundLocalError"
  by (auto simp add: get_temperature_def temperature_value_def exn_defs Let_def
        split: option.splits)

text \<open>
  An inactive temperature channel: line 181 adds one to the counter before the test of
  line 184, so the test succeeds and line 185 takes the one away again. The counter
  keeps its value and the channel stays inactive.
\<close>

lemma temperature_cooldown_stuck:
  "\<not> tempActive s \<Longrightarrow> 0 \<le> tempCount s \<Longrightarrow>
   fst (get_temperature factor rd cpu s) = Inr () \<and>
   tempActive (snd (get_temperature factor rd cpu s)) = False \<and>
   tempCount (snd (get_temperature factor rd cpu s)) = tempCount s \<and>
   gauges (snd (get_temperature factor rd cpu s)) TEMPERATURE = 0"
  by (simp add: get_temperature_def store_defs count_defs Let_def)

text \<open>
  A read that returns, with a nonzero factor: the CPU average is four parts the first
  sample of this call and one part the second, and the state before the call plays no
  part in the value.
\<close>

lemma temperature_compensation:
  "tempActive s \<Longrightarrow> f \<noteq> 0 \<Longrightarrow>
   get_temperature (Some f) (Inr raw) (c1, c2) s =
     (Inr (), set_gauge TEMPERATURE (raw - (((4 * c1 + c2) / 5 - raw) / f)) s)"
  by (simp add: get_temperature_def temperature_value_def compensated_def exn_defs Let_def
        eval_nat_numeral)

section \<open>Claims\<close>

text \<open>
  C1. The claim: every channel that starts active with a streak of 0 and whose read
  fails in every cycle goes through the active flags true, true, false, false, false,
  true, with its gauge at 0 from the first failure on. The seven channels other than
  temperature do so (lemmas \<open>get_pressure_duty_cycle\<close> to \<open>get_co2_duty_cycle\<close>).
  The temperature channel does not: its first failing read ends the call with
  \<open>UnboundLocalError\<close>, and from the inactive state with the counter at \<open>MAXCOUNT\<close>
  a call leaves the channel inactive with the counter still at \<open>MAXCOUNT\<close>.
\<close>

theorem temperature_duty_cycle_broken:
  "fst (get_temperature None (Inl RuntimeError) (0, 0) initial_state) = Inl UnboundLocalError \<and>
   tempActive (snd (get_temperature None (Inl RuntimeError) (0, 0)
      (initial_state\<lparr>tempActive := False, tempCount := MAXCOUNT\<rparr>))) = False \<and>
   tempCount (snd (get_temperature None (Inl RuntimeError) (0, 0)
      (initial_state\<lparr>tempActive := False, tempCount := MAXCOUNT\<rparr>))) = MAXCOUNT"
  by (simp add: get_temperature_def temperature_value_def initial_state_def exn_defs
        store_defs count_defs Let_def)

text \<open>
  C2. The claim: a read that raises one of the handled exceptions never makes the
  per-cycle function raise, in particular not \<open>get_temperature\<close>, whatever the factor.
  In the code, \<open>get_temperature\<close> on a fresh state ends with \<open>UnboundLocalError\<close>
  when the read raises \<open>IOError\<close>, with and without a factor, and the pass of the poll
  loop that contains the call ends with the same exception.
\<close>

theorem temperature_fault_escapes:
  "fst (get_temperature (Some 2) (Inl IOError) (50, 50) initial_state) = Inl UnboundLocalError \<and>
   fst (get_temperature None (Inl IOError) (50, 50) initial_state) = Inl UnboundLocalError \<and>
   fst (poll_cycle None False unit1_cal temperature_fault initial_state) = Inl UnboundLocalError"
  by (simp add: poll_cycle_def and_then_def temperature_fault_def get_temperature_def
        temperature_value_def initial_state_def exn_defs store_defs count_defs Let_def)

text \<open>
  C3. The claim: when a device set-up fails at start-up, its handler completes and the
  channels of the device start inactive with the counter at \<open>MAXCOUNT\<close>. In the code,
  the handler of the BME280 raises \<open>TypeError\<close> (it unpacks the single value
  \<open>False\<close> into three targets), so start-up does not complete; and the handler of the
  SCD4X deactivates the CO2 channel but leaves its counter at \<open>MINCOUNT\<close>.
\<close>

theorem startup_handlers_diverge:
  "startup \<lparr>ioe_fails = False, bme280_fails = True, pms5003_fails = False,
             scd4x_fails = False\<rparr> = Inl TypeError \<and>
   (case startup \<lparr>ioe_fails = False, bme280_fails = False, pms5003_fails = False,
                   scd4x_fails = True\<rparr> of
      Inl e \<Rightarrow> None | Inr s \<Rightarrow> Some (co2Active s, co2Count s)) = Some (False, MINCOUNT) \<and>
   MINCOUNT \<noteq> MAXCOUNT"
  by (simp add: startup_def init_bme280_def init_ioe_def init_pms5003_def init_scd4x_def
        initial_state_def exn_defs count_defs)

text \<open>
  The handlers of the IO expander and of the PMS5003 do what the claim says, when the
  BME280 is present.
\<close>

lemma startup_o2_particulates:
  "\<not> bme280_fails b \<Longrightarrow> \<exists>s. startup b = Inr s \<and>
    (ioe_fails b \<longrightarrow> o2Active s = False \<and> o2Count s = MAXCOUNT) \<and>
    (pms5003_fails b \<longrightarrow> partActive s = False \<and> partCount s = MAXCOUNT)"
  by (simp add: startup_def init_bme280_def init_ioe_def init_pms5003_def init_scd4x_def
        initial_state_def exn_defs store_defs)

text \<open>
  C4. The claim: \<open>calc_ppm\<close> returns 0.0 for a gas whose base reading is 0 or whose
  \<open>log10\<close> argument is not positive, and never raises. Counterexample: with the base
  readings of the source and a reducing reading of 0, the argument of \<open>log10\<close> is 0,
  \<open>calc_ppm\<close> raises \<open>ValueError\<close>, and \<open>get_gas\<close> counts a failed read.
\<close>

theorem calc_ppm_domain_error_escapes:
  "0 / base_red unit1_cal \<le> (0 :: real) \<and>
   calc_ppm unit1_cal 1 0 1 = Inl ValueError \<and>
   gasCount (snd (get_gas unit1_cal (Inr (1, 0, 1)) initial_state)) = 1"
  by (simp add: get_gas_def calc_ppm_def unit1_cal_def exn_defs num_defs initial_state_def
        store_defs count_defs Let_def)

lemma calc_ppm_raises_iff:
  "(calc_ppm cal ox red nh3 = Inl ValueError) =
     ((base_red cal \<noteq> 0 \<and> red / base_red cal \<le> 0) \<or>
      (base_nh3 cal \<noteq> 0 \<and> nh3 / base_nh3 cal \<le> 0))"
  by (auto simp add: calc_ppm_def exn_defs num_defs split: sum.splits if_splits)

lemma calc_ppm_raises_only_ValueError:
  "calc_ppm cal ox red nh3 = Inl e \<Longrightarrow> e = ValueError"
  by (auto simp add: calc_ppm_def exn_defs num_defs split: sum.splits if_splits)

lemma calc_ppm_zero_base:
  "calc_ppm cal ox red nh3 = Inr (a, b, c) \<Longrightarrow>
   (base_ox cal = 0 \<longrightarrow> a = 0) \<and> (base_red cal = 0 \<longrightarrow> b = 0) \<and>
   (base_nh3 cal = 0 \<longrightarrow> c = 0)"
  by (auto simp add: calc_ppm_def exn_defs num_defs split: sum.splits if_splits)

lemma get_gas_conversion_error:
  "gasActive s \<Longrightarrow> calc_ppm cal ox red nh3 = Inl ValueError \<Longrightarrow>
   fst (get_gas cal (Inr (ox, red, nh3)) s) = Inr () \<and>
   gauges (snd (get_gas cal (Inr (ox, red, nh3)) s)) OXIDISING = 0 \<and>
   gauges (snd (get_gas cal (Inr (ox, red, nh3)) s)) REDUCING = 0 \<and>
   gauges (snd (get_gas cal (Inr (ox, red, nh3)) s)) NH3 = 0 \<and>
   gasCount (snd (get_gas cal (Inr (ox, red, nh3)) s)) = min (gasCount s + 1) MAXCOUNT \<and>
   gasActive (snd (get_gas cal (Inr (ox, red, nh3)) s)) = (gasCount s + 1 < MAXCOUNT) \<and>
   i2c_resets (snd (get_gas cal (Inr (ox, red, nh3)) s)) = i2c_resets s + 1"
  by (simp add: get_gas_def exn_defs store_defs count_defs Let_def)

text \<open>
  C4, as amended. For every calibration and every triple of readings: \<open>calc_ppm\<close>
  raises nothing but \<open>ValueError\<close>; it raises \<open>ValueError\<close> exactly when the
  reducing or the ammonia base reading is nonzero and the quotient passed to \<open>log10\<close>
  is not positive; when it returns, the value of a gas whose base reading is 0 is 0.0
  (the \<open>ZeroDivisionError\<close> is caught inside \<open>calc_ppm\<close>); and when it raises on the
  readings of an active gas channel, \<open>get_gas\<close> returns after taking its read-failure
  path: bus reset, the three gas gauges at 0, the streak one higher (clamped, with
  deactivation at \<open>MAXCOUNT\<close>).
\<close>

theorem calc_ppm_guards:
  "((calc_ppm cal ox red nh3 = Inl ValueError) =
      ((base_red cal \<noteq> 0 \<and> red / base_red cal \<le> 0) \<or>
       (base_nh3 cal \<noteq> 0 \<and> nh3 / base_nh3 cal \<le> 0))) \<and>
   (\<forall>e. calc_ppm cal ox red nh3 = Inl e \<longrightarrow> e = ValueError) \<and>
   (\<forall>a b c. calc_ppm cal ox red nh3 = Inr (a, b, c) \<longrightarrow>
      (base_ox cal = 0 \<longrightarrow> a = 0) \<and> (base_red cal = 0 \<longrightarrow> b = 0) \<and>
      (base_nh3 cal = 0 \<longrightarrow> c = 0)) \<and>
   (gasActive s \<and> calc_ppm cal ox red nh3 = Inl ValueError \<longrightarrow>
      fst (get_gas cal (Inr (ox, red, nh3)) s) = Inr () \<and>
      gauges (snd (get_gas cal (Inr (ox, red, nh3)) s)) OXIDISING = 0 \<and>
      gauges (snd (get_gas cal (Inr (ox, red, nh3)) s)) REDUCING = 0 \<and>
      gauges (snd (get_gas cal (Inr (ox, red, nh3)) s)) NH3 = 0 \<and>
      gasCount (snd (get_gas cal (Inr (ox, red, nh3)) s)) = min (gasCount s + 1) MAXCOUNT \<and>
      gasActive (snd (get_gas cal (Inr (ox, red, nh3)) s)) = (gasCount s + 1 < MAXCOUNT) \<and>
      i2c_resets (snd (get_gas cal (Inr (ox, red, nh3)) s)) = i2c_resets s + 1)"
proof (intro conjI allI impI)
  show "(calc_ppm cal ox red nh3 = Inl ValueError) =
      ((base_red cal \<noteq> 0 \<and> red / base_red cal \<le> 0) \<or>
       (base_nh3 cal \<noteq> 0 \<and> nh3 / base_nh3 cal \<le> 0))"
    by (rule calc_ppm_raises_iff)
next
  fix e assume "calc_ppm cal ox red nh3 = Inl e"
  then show "e = ValueError" by (rule calc_ppm_raises_only_ValueError)
next
  fix a b c assume r: "calc_ppm cal ox red nh3 = Inr (a, b, c)"
  { assume "base_ox cal = 0" with calc_ppm_zero_base [OF r] show "a = 0" by simp }
  { assume "base_red cal = 0" with calc_ppm_zero_base [OF r] show "b = 0" by simp }
  { assume "base_nh3 cal = 0" with calc_ppm_zero_base [OF r] show "c = 0" by simp }
next
  assume h: "gasActive s \<and> calc_ppm cal ox red nh3 = Inl ValueError"
  note g = get_gas_conversion_error [OF conjunct1 [OF h] conjunct2 [OF h]]
  from g show "fst (get_gas cal (Inr (ox, red, nh3)) s) = Inr ()" by simp
  from g show "gauges (snd (get_gas cal (Inr (ox, red, nh3)) s)) OXIDISING = 0" by simp
  from g show "gauges (snd (get_gas cal (Inr (ox, red, nh3)) s)) REDUCING = 0" by simp
  from g show "gauges (snd (get_gas cal (Inr (ox, red, nh3)) s)) NH3 = 0" by simp
  from g show "gasCount (snd (get_gas cal (Inr (ox, red, nh3)) s)) = min (gasCount s + 1) MAXCOUNT"
    by simp
  from g show "gasActive (snd (get_gas cal (Inr (ox, red, nh3)) s)) = (gasCount s + 1 < MAXCOUNT)"
    by simp
  from g show "i2c_resets (snd (get_gas cal (Inr (ox, red, nh3)) s)) = i2c_resets s + 1"
    by simp
qed

theorem calc_ppm_guards_witness:
  "calc_ppm unit1_cal 5 0 7 = Inl ValueError \<and>
   fst (get_gas unit1_cal (Inr (5, 0, 7)) initial_state) = Inr () \<and>
   gauges (snd (get_gas unit1_cal (Inr (5, 0, 7)) initial_state)) REDUCING = 0 \<and>
   gasCount (snd (get_gas unit1_cal (Inr (5, 0, 7)) initial_state)) = 1 \<and>
   gasActive (snd (get_gas unit1_cal (Inr (5, 0, 7)) initial_state)) = True"
  using calc_ppm_guards [of unit1_cal 5 0 7 initial_state]
  by (simp add: unit1_cal_def initial_state_def count_defs)

text \<open>
  C5. The claim: with a nonzero factor the reported temperature is
  \<open>raw - ((avgCpuTemp - raw) / factor)\<close>, where \<open>avgCpuTemp\<close> is a trailing average
  of five CPU samples, one sample per cycle, kept across cycles. The formula is the
  code's (lemma \<open>temperature_compensation\<close>), the average is not: \<open>cpu_temps\<close> is a
  local of the call, rebuilt in every cycle from two samples of that cycle. Two cycles
  with a raw temperature of 20 and a factor of 2, the CPU at 50 in the first cycle and at
  60 in the second: the code reports 0 in the second cycle, where the trailing average
  of the specification (window 50, 50, 50, 50, 60) gives 4.
\<close>

theorem cpu_average_not_retained:
  "gauges (snd (get_temperature (Some 2) (Inr 20) (60, 60)
      (snd (get_temperature (Some 2) (Inr 20) (50, 50) initial_state)))) TEMPERATURE = 0 \<and>
   spec_temperature 2 [50, 60] 20 = 4"
  by (simp add: get_temperature_def temperature_value_def compensated_def
        spec_temperature_def initial_state_def exn_defs store_defs Let_def eval_nat_numeral)

text \<open>
  C6. The claim: on a successful O2 read the value written is
  \<open>((adc * 0.212) / 2.0) * 100\<close> rounded to two decimals. Counterexample: an ADC value
  of 1.234 is rounded to 1.23 before the conversion, and the gauge receives 13.038,
  where the rounded formula of the claim gives 13.08.
\<close>

theorem o2_rounds_the_adc_value:
  "gauges (snd (get_o2 (Inr (1234 / 1000)) initial_state)) O2 = 13038 / 1000 \<and>
   py_round2 (((1234 / 1000 * (212 / 1000)) / 2) * 100) = 1308 / 100 \<and>
   gauges (snd (get_o2 (Inr (1234 / 1000)) initial_state)) O2 \<noteq>
     py_round2 (((1234 / 1000 * (212 / 1000)) / 2) * 100)"
  by (simp add: get_o2_def initial_state_def exn_defs store_defs num_defs Let_def)

text \<open>
  C6, as amended. On a successful read of an active O2 channel, \<open>get_o2\<close> returns,
  and the value it writes to the O2 gauge and has the O2 histogram observe is
  \<open>((round(adc, 2) * 0.212) / 2.0) * 100\<close>: the ADC value is rounded to two decimals
  before the conversion and the result is not rounded. An ADC value of 2.0 gives 21.2.
\<close>

theorem o2_conversion:
  "(o2Active s \<longrightarrow>
      fst (get_o2 (Inr adc) s) = Inr () \<and>
      gauges (snd (get_o2 (Inr adc) s)) O2 = ((py_round2 adc * (212 / 1000)) / 2) * 100 \<and>
      hists (snd (get_o2 (Inr adc) s)) O2_HIST =
        hists s O2_HIST @ [((py_round2 adc * (212 / 1000)) / 2) * 100]) \<and>
   (o2Active s \<longrightarrow>
      gauges (snd (get_o2 (Inr 2) s)) O2 = 212 / 10 \<and>
      hists (snd (get_o2 (Inr 2) s)) O2_HIST = hists s O2_HIST @ [212 / 10])"
  by (simp add: get_o2_def exn_defs store_defs num_defs Let_def)

theorem o2_conversion_witness:
  "fst (get_o2 (Inr 2) initial_state) = Inr () \<and>
   gauges (snd (get_o2 (Inr 2) initial_state)) O2 = 212 / 10 \<and>
   hists (snd (get_o2 (Inr 2) initial_state)) O2_HIST = [212 / 10]"
  using o2_conversion [of initial_state 2]
  by (simp add: initial_state_def)

text \<open>
  C7. On a successful read of an active particulate channel with the cumulative values
  \<open>pm1\<close>, \<open>pm25\<close> and \<open>pm10\<close>, \<open>get_particulates\<close> returns, the three gauges
  hold the cumulative values unmodified, and the histograms observe \<open>pm1\<close>,
  \<open>pm25 - pm1\<close> and \<open>pm10 - pm25\<close>.
\<close>

theorem particulates_success:
  "partActive s \<Longrightarrow>
   fst (get_particulates (Inr (pm1, pm25, pm10)) s) = Inr () \<and>
   gauges (snd (get_particulates (Inr (pm1, pm25, pm10)) s)) PM1 = pm1 \<and>
   gauges (snd (get_particulates (Inr (pm1, pm25, pm10)) s)) PM25 = pm25 \<and>
   gauges (snd (get_particulates (Inr (pm1, pm25, pm10)) s)) PM10 = pm10 \<and>
   hists (snd (get_particulates (Inr (pm1, pm25, pm10)) s)) PM1_HIST =
     hists s PM1_HIST @ [pm1] \<and>
   hists (snd (get_particulates (Inr (pm1, pm25, pm10)) s)) PM25_HIST =
     hists s PM25_HIST @ [pm25 - pm1] \<and>
   hists (snd (get_particulates (Inr (pm1, pm25, pm10)) s)) PM10_HIST =
     hists s PM10_HIST @ [pm10 - pm25]"
  by (simp add: get_particulates_def store_defs)

text \<open>The example of the claim: 10, 15 and 20 give the observations 10, 5 and 5.\<close>

theorem particulates_success_witness:
  "gauges (snd (get_particulates (Inr (10, 15, 20)) initial_state)) PM1 = 10 \<and>
   gauges (snd (get_particulates (Inr (10, 15, 20)) initial_state)) PM25 = 15 \<and>
   gauges (snd (get_particulates (Inr (10, 15, 20)) initial_state)) PM10 = 20 \<and>
   hists (snd (get_particulates (Inr (10, 15, 20)) initial_state)) PM1_HIST = [10] \<and>
   hists (snd (get_particulates (Inr (10, 15, 20)) initial_state)) PM25_HIST = [5] \<and>
   hists (snd (get_particulates (Inr (10, 15, 20)) initial_state)) PM10_HIST = [5]"
  using particulates_success [of initial_state 10 15 20]
  by (simp add: initial_state_def)

text \<open>
  C8. The claim: for every channel, a cycle of an active channel in which the read
  succeeds leaves the streak and the active flag unchanged. Counterexample: the gas
  channel, active with a streak of 0; the driver read returns the readings 1, 0 and 1;
  \<open>calc_ppm\<close>, called inside the \<open>try\<close> block, raises \<open>ValueError\<close> on the
  reducing reading, and the handler of \<open>get_gas\<close> raises the streak to 1.
\<close>

theorem gas_success_changes_streak:
  "gasActive initial_state \<and> gasCount initial_state = 0 \<and>
   gasCount (snd (get_gas unit1_cal (Inr (1, 0, 1)) initial_state)) = 1"
  by (simp add: get_gas_def calc_ppm_def unit1_cal_def exn_defs num_defs initial_state_def
        store_defs count_defs Let_def)

text \<open>A cycle of an active channel whose read returns, channel by channel.\<close>

lemma get_temperature_success_frame:
  "tempActive s \<Longrightarrow>
   fst (get_temperature factor (Inr raw) cpu s) = Inr () \<and> tempActive (snd (get_temperature factor (Inr raw) cpu s)) = True \<and>
   tempCount (snd (get_temperature factor (Inr raw) cpu s)) = tempCount s"
  by (auto simp add: get_temperature_def temperature_value_def exn_defs store_defs
        split: option.splits)

lemma get_pressure_success_frame:
  "pressActive s \<Longrightarrow>
   fst (get_pressure (Inr pressure) s) = Inr () \<and> pressActive (snd (get_pressure (Inr pressure) s)) = True \<and>
   pressCount (snd (get_pressure (Inr pressure) s)) = pressCount s"
  by (simp add: get_pressure_def store_defs)

lemma get_humidity_success_frame:
  "humActive s \<Longrightarrow>
   fst (get_humidity (Inr humidity) s) = Inr () \<and> humActive (snd (get_humidity (Inr humidity) s)) = True \<and>
   humCount (snd (get_humidity (Inr humidity) s)) = humCount s"
  by (simp add: get_humidity_def store_defs)

lemma get_light_success_frame:
  "lightActive s \<Longrightarrow>
   fst (get_light (Inr lux) (Inr prox) s) = Inr () \<and> lightActive (snd (get_light (Inr lux) (Inr prox) s)) = True \<and>
   lightCount (snd (get_light (Inr lux) (Inr prox) s)) = lightCount s"
  by (simp add: get_light_def exn_defs store_defs)

lemma get_gas_success_frame:
  "gasActive s \<Longrightarrow> calc_ppm cal ox red nh3 = Inr ppm \<Longrightarrow>
   fst (get_gas cal (Inr (ox, red, nh3)) s) = Inr () \<and> gasActive (snd (get_gas cal (Inr (ox, red, nh3)) s)) = True \<and>
   gasCount (snd (get_gas cal (Inr (ox, red, nh3)) s)) = gasCount s"
  by (cases ppm) (simp add: get_gas_def exn_defs store_defs)

lemma get_o2_success_frame:
  "o2Active s \<Longrightarrow>
   fst (get_o2 (Inr adc) s) = Inr () \<and> o2Active (snd (get_o2 (Inr adc) s)) = True \<and>
   o2Count (snd (get_o2 (Inr adc) s)) = o2Count s"
  by (simp add: get_o2_def exn_defs store_defs)

lemma get_particulates_success_frame:
  "partActive s \<Longrightarrow>
   fst (get_particulates (Inr (pm1, pm25, pm10)) s) = Inr () \<and> partActive (snd (get_particulates (Inr (pm1, pm25, pm10)) s)) = True \<and>
   partCount (snd (get_particulates (Inr (pm1, pm25, pm10)) s)) = partCount s"
  by (simp add: get_particulates_def store_defs)

lemma get_co2_success_frame:
  "co2Active s \<Longrightarrow>
   fst (get_co2 (Inr (co2, tmp, rh, ts)) s) = Inr () \<and> co2Active (snd (get_co2 (Inr (co2, tmp, rh, ts)) s)) = True \<and>
   co2Count (snd (get_co2 (Inr (co2, tmp, rh, ts)) s)) = co2Count s"
  by (simp add: get_co2_def store_defs)

lemma calc_ppm_at_baseline:
  "calc_ppm unit1_cal 108706 396941 365918 = Inr (1 / 100, 2, 17 / 10)"
  by (simp add: calc_ppm_def unit1_cal_def exn_defs num_defs Let_def)

text \<open>
  C8, as amended. For every channel, a cycle of an active channel in which the read
  succeeds returns and leaves the streak and the active flag unchanged, whatever the
  streak; for the gas channel, provided that the conversion of the readings by
  \<open>calc_ppm\<close> does not raise.
\<close>

theorem success_keeps_health:
  "(tempActive s \<longrightarrow>
      fst (get_temperature factor (Inr raw) cpu s) = Inr () \<and> tempActive (snd (get_temperature factor (Inr raw) cpu s)) = True \<and>
      tempCount (snd (get_temperature factor (Inr raw) cpu s)) = tempCount s) \<and>
   (pressActive s \<longrightarrow>
      fst (get_pressure (Inr pressure) s) = Inr () \<and> pressActive (snd (get_pressure (Inr pressure) s)) = True \<and>
      pressCount (snd (get_pressure (Inr pressure) s)) = pressCount s) \<and>
   (humActive s \<longrightarrow>
      fst (get_humidity (Inr humidity) s) = Inr () \<and> humActive (snd (get_humidity (Inr humidity) s)) = True \<and>
      humCount (snd (get_humidity (Inr humidity) s)) = humCount s) \<and>
   (lightActive s \<longrightarrow>
      fst (get_light (Inr lux) (Inr prox) s) = Inr () \<and> lightActive (snd (get_light (Inr lux) (Inr prox) s)) = True \<and>
      lightCount (snd (get_light (Inr lux) (Inr prox) s)) = lightCount s) \<and>
   (gasActive s \<and> calc_ppm cal ox red nh3 = Inr ppm \<longrightarrow>
      fst (get_gas cal (Inr (ox, red, nh3)) s) = Inr () \<and> gasActive (snd (get_gas cal (Inr (ox, red, nh3)) s)) = True \<and>
      gasCount (snd (get_gas cal (Inr (ox, red, nh3)) s)) = gasCount s) \<and>
   (o2Active s \<longrightarrow>
      fst (get_o2 (Inr adc) s) = Inr () \<and> o2Active (snd (get_o2 (Inr adc) s)) = True \<and>
      o2Count (snd (get_o2 (Inr adc) s)) = o2Count s) \<and>
   (partActive s \<longrightarrow>
      fst (get_particulates (Inr (pm1, pm25, pm10)) s) = Inr () \<and> partActive (snd (get_particulates (Inr (pm1, pm25, pm10)) s)) = True \<and>
      partCount (snd (get_particulates (Inr (pm1, pm25, pm10)) s)) = partCount s) \<and>
   (co2Active s \<longrightarrow>
      fst (get_co2 (Inr (co2, tmp, rh, ts)) s) = Inr () \<and> co2Active (snd (get_co2 (Inr (co2, tmp, rh, ts)) s)) = True \<and>
      co2Count (snd (get_co2 (Inr (co2, tmp, rh, ts)) s)) = co2Count s)"
  using get_temperature_success_frame [of s factor raw cpu]
    get_pressure_success_frame [of s pressure] get_humidity_success_frame [of s humidity]
    get_light_success_frame [of s lux prox]
    get_gas_success_frame [of s cal ox red nh3 ppm]
    get_o2_success_frame [of s adc]
    get_particulates_success_frame [of s pm1 pm25 pm10]
    get_co2_success_frame [of s co2 tmp rh ts]
  by blast

theorem success_keeps_health_witness:
  "tempCount (snd (get_temperature (Some 2) (Inr 20) (50, 50) initial_state)) = 0 \<and>
   tempActive (snd (get_temperature (Some 2) (Inr 20) (50, 50) initial_state)) \<and>
   pressCount (snd (get_pressure (Inr 1013) initial_state)) = 0 \<and>
   humCount (snd (get_humidity (Inr 40) initial_state)) = 0 \<and>
   lightCount (snd (get_light (Inr 120) (Inr 3) initial_state)) = 0 \<and>
   gasCount (snd (get_gas unit1_cal (Inr (108706, 396941, 365918)) initial_state)) = 0 \<and>
   gasActive (snd (get_gas unit1_cal (Inr (108706, 396941, 365918)) initial_state)) \<and>
   o2Count (snd (get_o2 (Inr 2) initial_state)) = 0 \<and>
   partCount (snd (get_particulates (Inr (10, 15, 20)) initial_state)) = 0 \<and>
   co2Count (snd (get_co2 (Inr (420, 21, 40, 0)) initial_state)) = 0"
  using success_keeps_health [of initial_state "Some 2" 20 "(50, 50)" 1013 40 120 3
      unit1_cal 108706 396941 365918 "(1 / 100, 2, 17 / 10)" 2 10 15 20 420 21 40 0]
    calc_ppm_at_baseline
  by (simp add: initial_state_def count_defs)

text \<open>
  The inactive branch of \<open>get_temperature\<close>, taken on its own: entered with the
  counter at \<open>MAXCOUNT\<close>, line 181 stores \<open>MAXCOUNT + 1\<close> before line 185 brings it
  back to \<open>MAXCOUNT\<close>. No state of \<open>reachable\<close> enters the branch (lemma
  \<open>reachable_inv\<close> below: the temperature channel is active in every such state).
\<close>

lemma temperature_cooldown_overshoots:
  "countLog (snd (get_temperature None (Inr 20) (0, 0)
      (initial_state\<lparr>tempActive := False, tempCount := MAXCOUNT\<rparr>))) =
     [MAXCOUNT + 1, MAXCOUNT] \<and>
   MAXCOUNT + 1 \<notin> {MINCOUNT..MAXCOUNT}"
  by (simp add: get_temperature_def initial_state_def store_defs count_defs Let_def)

subsection \<open>The counters over the runs of the program\<close>

lemma visited_in_range: "visited c h \<Longrightarrow> snd h \<in> {MINCOUNT..MAXCOUNT}"
  by (cases h) (auto simp add: visited_def health_ok_def count_defs split: if_splits)

lemma cycle_inv_range_ok:
  assumes inv: "cycle_inv s"
  shows "range_ok s"
proof -
  from inv have vis: "\<And>c. visited c (health_of c s)"
    and log: "set (countLog s) \<subseteq> {MINCOUNT..MAXCOUNT}"
    by (simp_all add: cycle_inv_def)
  have "snd (health_of c s) \<in> {MINCOUNT..MAXCOUNT}" for c
    by (rule visited_in_range [OF vis])
  with log show ?thesis unfolding range_ok_def by blast
qed

text \<open>
  A function that touches the health state of one channel only is a safe step when,
  from a visited state of that channel, it stores only values of the range, leaves the
  counter in the range, and leaves the channel in a visited state when it returns.
\<close>

lemma safe_stepI:
  assumes frame: "\<And>c s. c \<noteq> ch \<Longrightarrow> health_of c (snd (f s)) = health_of c s"
    and own: "\<And>s. visited ch (health_of ch s) \<Longrightarrow>
        set (countLog (snd (f s))) \<subseteq> set (countLog s) \<union> {MINCOUNT..MAXCOUNT} \<and>
        snd (health_of ch (snd (f s))) \<in> {MINCOUNT..MAXCOUNT} \<and>
        (fst (f s) = Inr () \<longrightarrow> visited ch (health_of ch (snd (f s))))"
  shows "safe_step f"
  unfolding safe_step_def
proof (intro allI impI)
  fix s
  assume inv: "cycle_inv s"
  then have vis: "\<And>c. visited c (health_of c s)"
    and log: "set (countLog s) \<subseteq> {MINCOUNT..MAXCOUNT}"
    by (simp_all add: cycle_inv_def)
  note o = own [OF vis [of ch]]
  have log': "set (countLog (snd (f s))) \<subseteq> {MINCOUNT..MAXCOUNT}"
    using o log by blast
  have rng: "snd (health_of c (snd (f s))) \<in> {MINCOUNT..MAXCOUNT}" for c
  proof (cases "c = ch")
    case True
    with o show ?thesis by simp
  next
    case False
    then show ?thesis using frame [of c s] visited_in_range [OF vis [of c]] by simp
  qed
  have keep: "visited c (health_of c (snd (f s)))" if ret: "fst (f s) = Inr ()" for c
  proof (cases "c = ch")
    case True
    with o ret show ?thesis by simp
  next
    case False
    then show ?thesis using frame [of c s] vis [of c] by simp
  qed
  show "range_ok (snd (f s)) \<and> (fst (f s) = Inr () \<longrightarrow> cycle_inv (snd (f s)))"
    using rng log' keep by (simp add: range_ok_def cycle_inv_def)
qed

lemma get_temperature_frame:
  "c \<noteq> TempCh \<Longrightarrow> health_of c (snd (get_temperature factor rd cpu s)) = health_of c s"
  by (cases c)
     (simp_all add: get_temperature_def store_defs Let_def split: sum.splits prod.splits)

lemma get_pressure_frame:
  "c \<noteq> PressCh \<Longrightarrow> health_of c (snd (get_pressure rd s)) = health_of c s"
  by (cases c)
     (simp_all add: get_pressure_def store_defs Let_def split: sum.splits prod.splits)

lemma get_humidity_frame:
  "c \<noteq> HumCh \<Longrightarrow> health_of c (snd (get_humidity rd s)) = health_of c s"
  by (cases c)
     (simp_all add: get_humidity_def store_defs Let_def split: sum.splits prod.splits)

lemma get_light_frame:
  "c \<noteq> LightCh \<Longrightarrow> health_of c (snd (get_light lrd prd s)) = health_of c s"
  by (cases c)
     (simp_all add: get_light_def store_defs Let_def split: sum.splits prod.splits)

lemma get_gas_frame:
  "c \<noteq> GasCh \<Longrightarrow> health_of c (snd (get_gas cal rd s)) = health_of c s"
  by (cases c)
     (simp_all add: get_gas_def store_defs Let_def split: sum.splits prod.splits)

lemma get_o2_frame:
  "c \<noteq> O2Ch \<Longrightarrow> health_of c (snd (get_o2 rd s)) = health_of c s"
  by (cases c)
     (simp_all add: get_o2_def store_defs Let_def split: sum.splits prod.splits)

lemma get_particulates_frame:
  "c \<noteq> PartCh \<Longrightarrow> health_of c (snd (get_particulates rd s)) = health_of c s"
  by (cases c)
     (simp_all add: get_particulates_def store_defs Let_def split: sum.splits prod.splits)

lemma get_co2_frame:
  "c \<noteq> Co2Ch \<Longrightarrow> health_of c (snd (get_co2 rd s)) = health_of c s"
  by (cases c)
     (simp_all add: get_co2_def store_defs Let_def split: sum.splits prod.splits)

lemma get_temperature_own:
  "visited TempCh (health_of TempCh s) \<Longrightarrow>
   set (countLog (snd (get_temperature factor rd cpu s)))
     \<subseteq> set (countLog s) \<union> {MINCOUNT..MAXCOUNT} \<and>
   snd (health_of TempCh (snd (get_temperature factor rd cpu s))) \<in> {MINCOUNT..MAXCOUNT} \<and>
   (fst (get_temperature factor rd cpu s) = Inr () \<longrightarrow>
      visited TempCh (health_of TempCh (snd (get_temperature factor rd cpu s))))"
  by (auto simp add: get_temperature_def temperature_value_def visited_def exn_defs
        store_defs count_defs Let_def split: sum.splits option.splits if_splits)

lemma get_temperature_safe: "safe_step (get_temperature factor rd cpu)"
proof (rule safe_stepI [where ch = TempCh])
  fix c s
  assume "c \<noteq> TempCh"
  then show "health_of c (snd (get_temperature factor rd cpu s)) = health_of c s"
    by (rule get_temperature_frame)
next
  fix s
  assume "visited TempCh (health_of TempCh s)"
  then show "set (countLog (snd (get_temperature factor rd cpu s)))
       \<subseteq> set (countLog s) \<union> {MINCOUNT..MAXCOUNT} \<and>
     snd (health_of TempCh (snd (get_temperature factor rd cpu s))) \<in> {MINCOUNT..MAXCOUNT} \<and>
     (fst (get_temperature factor rd cpu s) = Inr () \<longrightarrow>
        visited TempCh (health_of TempCh (snd (get_temperature factor rd cpu s))))"
    by (rule get_temperature_own)
qed

lemma get_pressure_safe: "safe_step (get_pressure rd)"
proof (rule safe_stepI [where ch = PressCh])
  fix c s
  assume "c \<noteq> PressCh"
  then show "health_of c (snd (get_pressure rd s)) = health_of c s"
    by (rule get_pressure_frame)
next
  fix s
  assume "visited PressCh (health_of PressCh s)"
  then have h: "health_ok (pressActive s) (pressCount s)"
    by (simp add: visited_def)
  note w = get_pressure_writes_bounded [OF h, of rd]
  from w have "visited PressCh (health_of PressCh (snd (get_pressure rd s)))"
    by (simp add: visited_def)
  with w visited_in_range [of PressCh "health_of PressCh (snd (get_pressure rd s))"]
  show "set (countLog (snd (get_pressure rd s))) \<subseteq> set (countLog s) \<union> {MINCOUNT..MAXCOUNT} \<and>
        snd (health_of PressCh (snd (get_pressure rd s))) \<in> {MINCOUNT..MAXCOUNT} \<and>
        (fst (get_pressure rd s) = Inr () \<longrightarrow>
           visited PressCh (health_of PressCh (snd (get_pressure rd s))))"
    by simp
qed

lemma get_humidity_safe: "safe_step (get_humidity rd)"
proof (rule safe_stepI [where ch = HumCh])
  fix c s
  assume "c \<noteq> HumCh"
  then show "health_of c (snd (get_humidity rd s)) = health_of c s"
    by (rule get_humidity_frame)
next
  fix s
  assume "visited HumCh (health_of HumCh s)"
  then have h: "health_ok (humActive s) (humCount s)"
    by (simp add: visited_def)
  note w = get_humidity_writes_bounded [OF h, of rd]
  from w have "visited HumCh (health_of HumCh (snd (get_humidity rd s)))"
    by (simp add: visited_def)
  with w visited_in_range [of HumCh "health_of HumCh (snd (get_humidity rd s))"]
  show "set (countLog (snd (get_humidity rd s))) \<subseteq> set (countLog s) \<union> {MINCOUNT..MAXCOUNT} \<and>
        snd (health_of HumCh (snd (get_humidity rd s))) \<in> {MINCOUNT..MAXCOUNT} \<and>
        (fst (get_humidity rd s) = Inr () \<longrightarrow>
           visited HumCh (health_of HumCh (snd (get_humidity rd s))))"
    by simp
qed

lemma get_light_safe: "safe_step (get_light lrd prd)"
proof (rule safe_stepI [where ch = LightCh])
  fix c s
  assume "c \<noteq> LightCh"
  then show "health_of c (snd (get_light lrd prd s)) = health_of c s"
    by (rule get_light_frame)
next
  fix s
  assume "visited LightCh (health_of LightCh s)"
  then have h: "health_ok (lightActive s) (lightCount s)"
    by (simp add: visited_def)
  note w = get_light_writes_bounded [OF h, of lrd prd]
  from w have "visited LightCh (health_of LightCh (snd (get_light lrd prd s)))"
    by (simp add: visited_def)
  with w visited_in_range [of LightCh "health_of LightCh (snd (get_light lrd prd s))"]
  show "set (countLog (snd (get_light lrd prd s))) \<subseteq> set (countLog s) \<union> {MINCOUNT..MAXCOUNT} \<and>
        snd (health_of LightCh (snd (get_light lrd prd s))) \<in> {MINCOUNT..MAXCOUNT} \<and>
        (fst (get_light lrd prd s) = Inr () \<longrightarrow>
           visited LightCh (health_of LightCh (snd (get_light lrd prd s))))"
    by simp
qed

lemma get_gas_safe: "safe_step (get_gas cal rd)"
proof (rule safe_stepI [where ch = GasCh])
  fix c s
  assume "c \<noteq> GasCh"
  then show "health_of c (snd (get_gas cal rd s)) = health_of c s"
    by (rule get_gas_frame)
next
  fix s
  assume "visited GasCh (health_of GasCh s)"
  then have h: "health_ok (gasActive s) (gasCount s)"
    by (simp add: visited_def)
  note w = get_gas_writes_bounded [OF h, of cal rd]
  from w have "visited GasCh (health_of GasCh (snd (get_gas cal rd s)))"
    by (simp add: visited_def)
  with w visited_in_range [of GasCh "health_of GasCh (snd (get_gas cal rd s))"]
  show "set (countLog (snd (get_gas cal rd s))) \<subseteq> set (countLog s) \<union> {MINCOUNT..MAXCOUNT} \<and>
        snd (health_of GasCh (snd (get_gas cal rd s))) \<in> {MINCOUNT..MAXCOUNT} \<and>
        (fst (get_gas cal rd s) = Inr () \<longrightarrow>
           visited GasCh (health_of GasCh (snd (get_gas cal rd s))))"
    by simp
qed

lemma get_o2_safe: "safe_step (get_o2 rd)"
proof (rule safe_stepI [where ch = O2Ch])
  fix c s
  assume "c \<noteq> O2Ch"
  then show "health_of c (snd (get_o2 rd s)) = health_of c s"
    by (rule get_o2_frame)
next
  fix s
  assume "visited O2Ch (health_of O2Ch s)"
  then have h: "health_ok (o2Active s) (o2Count s)"
    by (simp add: visited_def)
  note w = get_o2_writes_bounded [OF h, of rd]
  from w have "visited O2Ch (health_of O2Ch (snd (get_o2 rd s)))"
    by (simp add: visited_def)
  with w visited_in_range [of O2Ch "health_of O2Ch (snd (get_o2 rd s))"]
  show "set (countLog (snd (get_o2 rd s))) \<subseteq> set (countLog s) \<union> {MINCOUNT..MAXCOUNT} \<and>
        snd (health_of O2Ch (snd (get_o2 rd s))) \<in> {MINCOUNT..MAXCOUNT} \<and>
        (fst (get_o2 rd s) = Inr () \<longrightarrow>
           visited O2Ch (health_of O2Ch (snd (get_o2 rd s))))"
    by simp
qed

lemma get_particulates_safe: "safe_step (get_particulates rd)"
proof (rule safe_stepI [where ch = PartCh])
  fix c s
  assume "c \<noteq> PartCh"
  then show "health_of c (snd (get_particulates rd s)) = health_of c s"
    by (rule get_particulates_frame)
next
  fix s
  assume "visited PartCh (health_of PartCh s)"
  then have h: "health_ok (partActive s) (partCount s)"
    by (simp add: visited_def)
  note w = get_particulates_writes_bounded [OF h, of rd]
  from w have "visited PartCh (health_of PartCh (snd (get_particulates rd s)))"
    by (simp add: visited_def)
  with w visited_in_range [of PartCh "health_of PartCh (snd (get_particulates rd s))"]
  show "set (countLog (snd (get_particulates rd s))) \<subseteq> set (countLog s) \<union> {MINCOUNT..MAXCOUNT} \<and>
        snd (health_of PartCh (snd (get_particulates rd s))) \<in> {MINCOUNT..MAXCOUNT} \<and>
        (fst (get_particulates rd s) = Inr () \<longrightarrow>
           visited PartCh (health_of PartCh (snd (get_particulates rd s))))"
    by simp
qed

lemma get_co2_safe: "safe_step (get_co2 rd)"
proof (rule safe_stepI [where ch = Co2Ch])
  fix c s
  assume "c \<noteq> Co2Ch"
  then show "health_of c (snd (get_co2 rd s)) = health_of c s"
    by (rule get_co2_frame)
next
  fix s
  assume "visited Co2Ch (health_of Co2Ch s)"
  then have h: "health_ok (co2Active s) (co2Count s)"
    by (simp add: visited_def)
  note w = get_co2_writes_bounded [OF h, of rd]
  from w have "visited Co2Ch (health_of Co2Ch (snd (get_co2 rd s)))"
    by (simp add: visited_def)
  with w visited_in_range [of Co2Ch "health_of Co2Ch (snd (get_co2 rd s))"]
  show "set (countLog (snd (get_co2 rd s))) \<subseteq> set (countLog s) \<union> {MINCOUNT..MAXCOUNT} \<and>
        snd (health_of Co2Ch (snd (get_co2 rd s))) \<in> {MINCOUNT..MAXCOUNT} \<and>
        (fst (get_co2 rd s) = Inr () \<longrightarrow>
           visited Co2Ch (health_of Co2Ch (snd (get_co2 rd s))))"
    by simp
qed

text \<open>Sequencing, the test on the sensor set, and the pass as a whole.\<close>

lemma and_then_safe:
  "safe_step f \<Longrightarrow> safe_step g \<Longrightarrow> safe_step (\<lambda>s. and_then (f s) g)"
  unfolding safe_step_def
proof (intro allI impI)
  fix s
  assume f: "\<forall>s. cycle_inv s \<longrightarrow>
      range_ok (snd (f s)) \<and> (fst (f s) = Inr () \<longrightarrow> cycle_inv (snd (f s)))"
    and g: "\<forall>s. cycle_inv s \<longrightarrow>
      range_ok (snd (g s)) \<and> (fst (g s) = Inr () \<longrightarrow> cycle_inv (snd (g s)))"
    and inv: "cycle_inv s"
  obtain r s1 where fs: "f s = (r, s1)" by (cases "f s")
  from f inv fs have r1: "range_ok s1" and c1: "r = Inr () \<Longrightarrow> cycle_inv s1"
    by auto
  show "range_ok (snd (and_then (f s) g)) \<and>
        (fst (and_then (f s) g) = Inr () \<longrightarrow> cycle_inv (snd (and_then (f s) g)))"
  proof (cases r)
    case (Inl e)
    with fs r1 show ?thesis by (simp add: and_then_def)
  next
    case (Inr u)
    with c1 have "cycle_inv s1" by simp
    with g have "range_ok (snd (g s1)) \<and> (fst (g s1) = Inr () \<longrightarrow> cycle_inv (snd (g s1)))"
      by blast
    with fs Inr show ?thesis by (simp add: and_then_def)
  qed
qed

lemma skip_safe: "safe_step (\<lambda>s. (Inr (), s))"
  by (simp add: safe_step_def cycle_inv_range_ok)

lemma if_safe:
  "safe_step f \<Longrightarrow> safe_step g \<Longrightarrow> safe_step (\<lambda>s. if b then f s else g s)"
  by (cases b) (simp_all add: safe_step_def)

lemma safe_step_cong: "(\<And>s. f s = g s) \<Longrightarrow> safe_step g \<Longrightarrow> safe_step f"
  by (simp add: safe_step_def)

lemma poll_cycle_safe: "safe_step (poll_cycle factor enviro cal r)"
  by (rule safe_step_cong [OF poll_cycle_def])
     (intro and_then_safe if_safe skip_safe get_temperature_safe get_pressure_safe
        get_humidity_safe get_light_safe get_gas_safe get_o2_safe get_particulates_safe
        get_co2_safe)

text \<open>
  A completed start-up leaves a state of \<open>cycle_inv\<close>, and so does every pass that
  returns.
\<close>

lemma startup_inv: "startup b = Inr s \<Longrightarrow> cycle_inv s"
proof -
  assume st: "startup b = Inr s"
  then have nb: "\<not> bme280_fails b"
    by (auto simp add: startup_def init_bme280_def exn_defs)
  with st have s: "s = init_scd4x b (init_pms5003 b (init_ioe b initial_state))"
    by (simp add: startup_def init_bme280_def exn_defs)
  have "visited c (health_of c s)" for c
    unfolding s
    by (cases c)
       (simp_all add: visited_def health_ok_def init_scd4x_def init_pms5003_def init_ioe_def
          initial_state_def store_defs count_defs)
  moreover have "set (countLog s) \<subseteq> {MINCOUNT..MAXCOUNT}"
    unfolding s
    by (simp add: init_scd4x_def init_pms5003_def init_ioe_def initial_state_def store_defs
          count_defs)
  ultimately show "cycle_inv s" by (simp add: cycle_inv_def)
qed

lemma reachable_inv: "reachable s \<Longrightarrow> cycle_inv s"
proof (induction rule: reachable.induct)
  case (start b s)
  then show ?case by (rule startup_inv)
next
  case (pass s factor enviro cal r s')
  from poll_cycle_safe [of factor enviro cal r] pass.IH pass.hyps(2)
  show ?case by (auto simp add: safe_step_def)
qed

text \<open>
  C9. In every state that the program reaches between two passes of the poll loop, and
  at the end of every pass made from such a state, whether the pass returns or is cut
  short by an exception, each of the eight counters lies between \<open>MINCOUNT\<close> and
  \<open>MAXCOUNT\<close>, and so does every value that any assignment has stored into a counter
  since start-up, the intermediate ones within a cycle included (\<open>countLog\<close> records
  each assignment).
\<close>

theorem counters_stay_in_range:
  "reachable s \<Longrightarrow>
   set (countLog s) \<subseteq> {MINCOUNT..MAXCOUNT} \<and>
   set (countLog (snd (poll_cycle factor enviro cal r s))) \<subseteq> {MINCOUNT..MAXCOUNT} \<and>
   tempCount (snd (poll_cycle factor enviro cal r s)) \<in> {MINCOUNT..MAXCOUNT} \<and>
   pressCount (snd (poll_cycle factor enviro cal r s)) \<in> {MINCOUNT..MAXCOUNT} \<and>
   humCount (snd (poll_cycle factor enviro cal r s)) \<in> {MINCOUNT..MAXCOUNT} \<and>
   lightCount (snd (poll_cycle factor enviro cal r s)) \<in> {MINCOUNT..MAXCOUNT} \<and>
   gasCount (snd (poll_cycle factor enviro cal r s)) \<in> {MINCOUNT..MAXCOUNT} \<and>
   o2Count (snd (poll_cycle factor enviro cal r s)) \<in> {MINCOUNT..MAXCOUNT} \<and>
   partCount (snd (poll_cycle factor enviro cal r s)) \<in> {MINCOUNT..MAXCOUNT} \<and>
   co2Count (snd (poll_cycle factor enviro cal r s)) \<in> {MINCOUNT..MAXCOUNT}"
proof -
  assume "reachable s"
  then have inv: "cycle_inv s" by (rule reachable_inv)
  with poll_cycle_safe [of factor enviro cal r]
  have rng: "range_ok (snd (poll_cycle factor enviro cal r s))"
    by (simp add: safe_step_def)
  then have c: "snd (health_of c (snd (poll_cycle factor enviro cal r s)))
      \<in> {MINCOUNT..MAXCOUNT}" for c
    by (simp add: range_ok_def)
  from inv have "set (countLog s) \<subseteq> {MINCOUNT..MAXCOUNT}"
    by (simp add: cycle_inv_def)
  moreover from rng
  have "set (countLog (snd (poll_cycle factor enviro cal r s))) \<subseteq> {MINCOUNT..MAXCOUNT}"
    by (simp add: range_ok_def)
  ultimately show ?thesis
    using c [of TempCh] c [of PressCh] c [of HumCh] c [of LightCh] c [of GasCh]
      c [of O2Ch] c [of PartCh] c [of Co2Ch]
    by simp
qed

text \<open>
  The theorem at the state that one pass of failing reads leaves behind, for a second
  pass of failing reads (the pass that deactivates the seven channels).
\<close>

theorem counters_stay_in_range_witness:
  "set (countLog (snd (poll_cycle None False unit1_cal sensors_fault
      (snd (poll_cycle None False unit1_cal sensors_fault initial_state)))))
     \<subseteq> {MINCOUNT..MAXCOUNT} \<and>
   pressCount (snd (poll_cycle None False unit1_cal sensors_fault
      (snd (poll_cycle None False unit1_cal sensors_fault initial_state))))
     \<in> {MINCOUNT..MAXCOUNT} \<and>
   co2Count (snd (poll_cycle None False unit1_cal sensors_fault
      (snd (poll_cycle None False unit1_cal sensors_fault initial_state))))
     \<in> {MINCOUNT..MAXCOUNT}"
proof -
  have "startup all_present = Inr initial_state"
    by (simp add: startup_def all_present_def init_bme280_def init_ioe_def init_pms5003_def
          init_scd4x_def exn_defs)
  then have r0: "reachable initial_state" by (rule reachable.start)
  have "fst (poll_cycle None False unit1_cal sensors_fault initial_state) = Inr ()"
    by (simp add: poll_cycle_def and_then_def sensors_fault_def get_temperature_def
          temperature_value_def get_pressure_def get_humidity_def get_light_def get_gas_def
          get_o2_def get_particulates_def get_co2_def initial_state_def exn_defs store_defs
          count_defs Let_def)
  then have "poll_cycle None False unit1_cal sensors_fault initial_state =
      (Inr (), snd (poll_cycle None False unit1_cal sensors_fault initial_state))"
    by (simp add: prod_eq_iff)
  with r0 have r1: "reachable (snd (poll_cycle None False unit1_cal sensors_fault initial_state))"
    by (rule reachable.pass)
  from counters_stay_in_range [OF r1, of None False unit1_cal sensors_fault]
  show ?thesis by simp
qed

text \<open>
  C10. Lux and proximity are one channel with one health state. In a cycle in which the
  channel is inactive, or in which it is active and the lux read or the proximity read
  raises an exception of the handler's tuple, \<open>get_light\<close> returns with the lux gauge
  and the proximity gauge both at 0, and the one flag \<open>lightActive\<close> and the one
  counter \<open>lightCount\<close> move as the health state of a channel does.
\<close>

theorem light_shared_health:
  "\<not> lightActive s \<or>
     (lightActive s \<and> e \<in> set sensor_errors \<and>
      (lrd = Inl e \<or> (lrd = Inr lux \<and> prd = Inl e))) \<Longrightarrow>
   fst (get_light lrd prd s) = Inr () \<and>
   gauges (snd (get_light lrd prd s)) LUX = 0 \<and>
   gauges (snd (get_light lrd prd s)) PROXIMITY = 0 \<and>
   lightActive (snd (get_light lrd prd s)) =
     (if lightActive s then lightCount s + 1 < MAXCOUNT else lightCount s \<le> MINCOUNT) \<and>
   lightCount (snd (get_light lrd prd s)) =
     (if lightActive s then min (lightCount s + 1) MAXCOUNT
      else max (lightCount s - 1) MINCOUNT)"
  by (auto simp add: get_light_def bind_exn_def store_defs count_defs Let_def)

theorem light_shared_health_witness:
  "fst (get_light (Inr 120) (Inl IOError) initial_state) = Inr () \<and>
   gauges (snd (get_light (Inr 120) (Inl IOError) initial_state)) LUX = 0 \<and>
   gauges (snd (get_light (Inr 120) (Inl IOError) initial_state)) PROXIMITY = 0 \<and>
   lightCount (snd (get_light (Inr 120) (Inl IOError) initial_state)) = 1 \<and>
   gauges (snd (get_light (Inr 120) (Inr 3) (initial_state\<lparr>lightActive := False\<rparr>))) LUX = 0 \<and>
   gauges (snd (get_light (Inr 120) (Inr 3) (initial_state\<lparr>lightActive := False\<rparr>)))
     PROXIMITY = 0"
  using light_shared_health [of initial_state IOError "Inr 120" 120 "Inl IOError"]
    light_shared_health [of "initial_state\<lparr>lightActive := False\<rparr>" IOError "Inr 120" 120 "Inr 3"]
  by (simp add: initial_state_def sensor_errors_def count_defs)

end
